theory Spec2Isabelle
  imports Complex_Main "HOL-Library.Word" "HOL-Library.Monad_Syntax"
begin

section \<open>JavaScript values\<close>

text \<open>
  The repository is TypeScript/JavaScript working on untyped JSON (\<open>data: any\<close>), so the
  embedding carries the dynamic values themselves. A string is its sequence of UTF-16 code
  units; \<open>lit\<close> turns an ASCII literal into one, and the Chinese literals of the source are
  written out as code units below.

  A number is one of the IEEE special values or \<open>Fin r\<close>, a finite double given by its exact
  rational value \<open>r\<close>. The conversions that produce numbers round to the nearest double, and
  the conversions that print a number print the shortest decimal that reads back as it.

  A conversion that throws \<open>TypeError\<close> in JavaScript returns \<open>None\<close> here, and so does every
  function of the program that lets the exception pass.
\<close>

type_synonym jsstring = "16 word list"

definition lit :: "string \<Rightarrow> jsstring" where
  "lit s = map of_char s"

datatype jsnum = Fin rat | NegZero | NaN | PosInf | NegInf

datatype jsval =
    JUndefined
  | JNull
  | JBool bool
  | JNum jsnum
  | JStr jsstring
  | JArr "jsval list"
  | JObj "(jsstring \<times> jsval) list"

subsection \<open>Strings\<close>

text \<open>\<open>WhiteSpace\<close> and \<open>LineTerminator\<close> of ECMAScript, as stripped by
  \<open>String.prototype.trim\<close> and by the string-to-number conversion.\<close>

definition isWhiteSpace :: "16 word \<Rightarrow> bool" where
  "isWhiteSpace c \<longleftrightarrow>
     c \<in> {0x09, 0x0A, 0x0B, 0x0C, 0x0D, 0x20, 0xA0, 0x1680, 0x2028, 0x2029,
          0x202F, 0x205F, 0x3000, 0xFEFF}
     \<or> (0x2000 \<le> c \<and> c \<le> 0x200A)"

definition trim :: "jsstring \<Rightarrow> jsstring" where
  "trim s = rev (dropWhile isWhiteSpace (rev (dropWhile isWhiteSpace s)))"

fun join :: "jsstring \<Rightarrow> jsstring list \<Rightarrow> jsstring" where
  "join sep [] = []"
| "join sep [x] = x"
| "join sep (x # y # ys) = x @ sep @ join sep (y # ys)"

subsection \<open>Doubles\<close>

text \<open>Powers of two and ten with an integer exponent.\<close>

definition pow2 :: "int \<Rightarrow> rat" where
  "pow2 e = (if 0 \<le> e then 2 ^ nat e else 1 / 2 ^ nat (- e))"

definition pow10 :: "int \<Rightarrow> rat" where
  "pow10 e = (if 0 \<le> e then 10 ^ nat e else 1 / 10 ^ nat (- e))"

text \<open>The number of binary and of decimal digits of a positive integer, and its decimal
  digits, most significant first.\<close>

function bitLength :: "int \<Rightarrow> int" where
  "bitLength n = (if n \<le> 0 then 0 else 1 + bitLength (n div 2))"
  by pat_completeness auto
termination
  by (relation "measure nat") auto

function digitCount :: "int \<Rightarrow> int" where
  "digitCount n = (if n \<le> 0 then 0 else 1 + digitCount (n div 10))"
  by pat_completeness auto
termination
  by (relation "measure nat") auto

function intDigits :: "int \<Rightarrow> int list" where
  "intDigits n = (if n \<le> 0 then [] else intDigits (n div 10) @ [n mod 10])"
  by pat_completeness auto
termination
  by (relation "measure nat") auto

declare bitLength.simps [simp del]
declare digitCount.simps [simp del]
declare intDigits.simps [simp del]

text \<open>For \<open>q > 0\<close>: the integers \<open>e\<close> with \<open>2 ^ e \<le> q < 2 ^ (e + 1)\<close> and with
  \<open>10 ^ e \<le> q < 10 ^ (e + 1)\<close>.\<close>

definition floorLog2 :: "rat \<Rightarrow> int" where
  "floorLog2 q = (if 1 \<le> q then bitLength \<lfloor>q\<rfloor> - 1 else - bitLength (\<lceil>1 / q\<rceil> - 1))"

definition floorLog10 :: "rat \<Rightarrow> int" where
  "floorLog10 q = (if 1 \<le> q then digitCount \<lfloor>q\<rfloor> - 1 else - digitCount (\<lceil>1 / q\<rceil> - 1))"

definition roundHalfEven :: "rat \<Rightarrow> int" where
  "roundHalfEven x =
     (let f = \<lfloor>x\<rfloor>; d = x - of_int f
      in if d < 1 / 2 then f
         else if 1 / 2 < d then f + 1
         else if even f then f else f + 1)"

text \<open>
  The double nearest to \<open>q \<ge> 0\<close>, ties to the even significand: 53 significant bits, the
  least exponent \<open>-1074\<close>, and \<open>Infinity\<close> when the rounded value reaches \<open>2 ^ 1024\<close>.
  \<open>toDouble\<close> adds the sign.
\<close>

definition roundToDouble :: "rat \<Rightarrow> jsnum" where
  "roundToDouble q =
     (if q \<le> 0 then Fin 0
      else let e = max (floorLog2 q - 52) (- 1074);
               v = of_int (roundHalfEven (q / pow2 e)) * pow2 e
           in if 1024 \<le> floorLog2 v then PosInf else Fin v)"

definition toDouble :: "bool \<Rightarrow> rat \<Rightarrow> jsnum" where
  "toDouble neg q =
     (case roundToDouble q of
        Fin v \<Rightarrow> if neg then (if v = 0 then NegZero else Fin (- v)) else Fin v
      | _ \<Rightarrow> if neg then NegInf else PosInf)"

subsection \<open>Numbers to strings\<close>

definition digitChar :: "int \<Rightarrow> 16 word" where
  "digitChar d = of_int (48 + d)"

text \<open>
  The shortest decimal of a double \<open>q > 0\<close>, as \<open>Number::toString\<close> chooses it: the least
  number \<open>k\<close> of digits for which the \<open>k\<close>-digit decimal nearest to \<open>q\<close> reads back as \<open>q\<close>.
  The result \<open>(s, e)\<close> stands for \<open>s * 10 ^ e\<close>; \<open>n\<close> is the decimal exponent of \<open>q\<close>, with
  \<open>10 ^ (n - 1) \<le> q < 10 ^ n\<close>. Seventeen digits always suffice for a double.
\<close>

fun shortest :: "nat \<Rightarrow> rat \<Rightarrow> int \<Rightarrow> int \<Rightarrow> int \<times> int" where
  "shortest 0 q n k = (roundHalfEven (q / pow10 (n - k)), n - k)"
| "shortest (Suc fuel) q n k =
     (let s = roundHalfEven (q / pow10 (n - k))
      in if roundToDouble (of_int s * pow10 (n - k)) = Fin q then (s, n - k)
         else shortest fuel q n (k + 1))"

definition decimalOf :: "rat \<Rightarrow> int \<times> int" where
  "decimalOf q = shortest 16 q (floorLog10 q + 1) 1"

text \<open>
  \<open>Number::toString\<close> (radix 10) of ECMAScript: with the digits \<open>sd\<close> of the shortest decimal
  (\<open>k\<close> of them) and its decimal exponent \<open>n\<close>, plain notation for \<open>-6 < n \<le> 21\<close> and
  exponent notation otherwise.
\<close>

definition positiveToString :: "rat \<Rightarrow> jsstring" where
  "positiveToString q =
     (let (s, e) = decimalOf q;
          ds = intDigits s;
          n = int (length ds) + e;
          sd = map digitChar (rev (dropWhile (\<lambda>d. d = 0) (rev ds)));
          k = int (length sd)
      in if k \<le> n \<and> n \<le> 21 then sd @ replicate (nat (n - k)) (digitChar 0)
         else if 0 < n \<and> n \<le> 21 then take (nat n) sd @ lit ''.'' @ drop (nat n) sd
         else if - 6 < n \<and> n \<le> 0 then lit ''0.'' @ replicate (nat (- n)) (digitChar 0) @ sd
         else (if k = 1 then sd else take 1 sd @ lit ''.'' @ drop 1 sd)
              @ lit ''e'' @ (if n - 1 < 0 then lit ''-'' else lit ''+'')
              @ map digitChar (intDigits \<bar>n - 1\<bar>))"

fun numberToString :: "jsnum \<Rightarrow> jsstring" where
  "numberToString NaN = lit ''NaN''"
| "numberToString NegZero = lit ''0''"
| "numberToString PosInf = lit ''Infinity''"
| "numberToString NegInf = lit ''-Infinity''"
| "numberToString (Fin r) =
     (if r = 0 then lit ''0''
      else if r < 0 then lit ''-'' @ positiveToString (- r)
      else positiveToString r)"

text \<open>
  \<open>n.toLocaleString('zh-CN', {minimumFractionDigits: 2, maximumFractionDigits: 2})\<close> as
  Node formats it: the shortest decimal of the magnitude, rounded to hundredths (half away
  from zero); the integer digits grouped in threes by commas, a point and two decimals;
  the sign is that of the number before rounding.
\<close>

fun groupRev :: "jsstring \<Rightarrow> jsstring" where
  "groupRev (a # b # c # d # r) = a # b # c # 0x2C # groupRev (d # r)"
| "groupRev xs = xs"

definition fixed2 :: "bool \<Rightarrow> rat \<Rightarrow> jsstring" where
  "fixed2 neg a =
     (let cents = \<lfloor>a * 100 + 1 / 2\<rfloor>;
          ip = cents div 100;
          fp = cents mod 100;
          ipd = (if ip = 0 then [digitChar 0] else map digitChar (intDigits ip))
      in (if neg then lit ''-'' else [])
         @ rev (groupRev (rev ipd))
         @ lit ''.'' @ [digitChar (fp div 10), digitChar (fp mod 10)])"

definition decimalValue :: "rat \<Rightarrow> rat" where
  "decimalValue q = (if q = 0 then 0 else let (s, e) = decimalOf q in of_int s * pow10 e)"

fun toLocaleString_zhCN_2 :: "jsnum \<Rightarrow> jsstring" where
  "toLocaleString_zhCN_2 NaN = lit ''NaN''"
| "toLocaleString_zhCN_2 PosInf = [0x221E]"
| "toLocaleString_zhCN_2 NegInf = lit ''-'' @ [0x221E]"
| "toLocaleString_zhCN_2 NegZero = fixed2 True 0"
| "toLocaleString_zhCN_2 (Fin r) = fixed2 (r < 0) (decimalValue \<bar>r\<bar>)"

subsection \<open>Strings to numbers\<close>

definition isDigit :: "16 word \<Rightarrow> bool" where
  "isDigit c \<longleftrightarrow> 0x30 \<le> c \<and> c \<le> 0x39"

definition digitValue :: "16 word \<Rightarrow> int" where
  "digitValue c =
     (if 0x30 \<le> c \<and> c \<le> 0x39 then uint c - 48
      else if 0x61 \<le> c \<and> c \<le> 0x66 then uint c - 87
      else if 0x41 \<le> c \<and> c \<le> 0x46 then uint c - 55
      else 99)"

definition radixValue :: "int \<Rightarrow> jsstring \<Rightarrow> int" where
  "radixValue b ds = foldl (\<lambda>acc c. acc * b + digitValue c) 0 ds"

text \<open>What a string denotes before rounding: no number, an infinity with its sign, or a
  sign and an exact magnitude.\<close>

datatype literal = NotNumeric | Infinite bool | Magnitude bool rat

definition radixLiteral :: "int \<Rightarrow> jsstring \<Rightarrow> literal" where
  "radixLiteral b ds =
     (if ds \<noteq> [] \<and> list_all (\<lambda>c. digitValue c < b) ds
      then Magnitude False (of_int (radixValue b ds))
      else NotNumeric)"

definition unsignedDecimal :: "jsstring \<Rightarrow> rat option" where
  "unsignedDecimal u =
     (let isE = (\<lambda>c. c = 0x65 \<or> c = 0x45);
          m = takeWhile (\<lambda>c. \<not> isE c) u;
          ex = dropWhile (\<lambda>c. \<not> isE c) u;
          ip = takeWhile (\<lambda>c. c \<noteq> 0x2E) m;
          fp = drop 1 (dropWhile (\<lambda>c. c \<noteq> 0x2E) m);
          es = drop 1 ex;
          eneg = (take 1 es = lit ''-'');
          ed = (if take 1 es = lit ''-'' \<or> take 1 es = lit ''+'' then drop 1 es else es)
      in if list_all isDigit ip \<and> list_all isDigit fp \<and> \<not> (ip = [] \<and> fp = [])
            \<and> (ex = [] \<or> (ed \<noteq> [] \<and> list_all isDigit ed))
         then Some ((of_int (radixValue 10 ip) + of_int (radixValue 10 fp) / 10 ^ length fp)
                    * pow10 (if eneg then - radixValue 10 ed else radixValue 10 ed))
         else None)"

definition signedDecimal :: "jsstring \<Rightarrow> literal" where
  "signedDecimal t =
     (let neg = (take 1 t = lit ''-'');
          u = (if take 1 t = lit ''-'' \<or> take 1 t = lit ''+'' then drop 1 t else t)
      in if u = lit ''Infinity'' then Infinite neg
         else (case unsignedDecimal u of None \<Rightarrow> NotNumeric | Some v \<Rightarrow> Magnitude neg v))"

text \<open>\<open>StringToNumber\<close>: the empty or blank string is 0, then the radix-prefixed
  integers, then the signed decimal literals; anything else is \<open>NaN\<close>. The value is
  rounded to a double.\<close>

definition parseLiteral :: "jsstring \<Rightarrow> literal" where
  "parseLiteral s =
     (let t = trim s
      in if t = [] then Magnitude False 0
         else if take 2 t = lit ''0x'' \<or> take 2 t = lit ''0X'' then radixLiteral 16 (drop 2 t)
         else if take 2 t = lit ''0o'' \<or> take 2 t = lit ''0O'' then radixLiteral 8 (drop 2 t)
         else if take 2 t = lit ''0b'' \<or> take 2 t = lit ''0B'' then radixLiteral 2 (drop 2 t)
         else signedDecimal t)"

fun literalNumber :: "literal \<Rightarrow> jsnum" where
  "literalNumber NotNumeric = NaN"
| "literalNumber (Infinite neg) = (if neg then NegInf else PosInf)"
| "literalNumber (Magnitude neg v) = toDouble neg v"

definition stringToNumber :: "jsstring \<Rightarrow> jsnum" where
  "stringToNumber s = literalNumber (parseLiteral s)"

subsection \<open>Conversions and operators\<close>

text \<open>
  \<open>ToString\<close>, as template literals, \<open>String(v)\<close> and \<open>Array.prototype.join\<close> apply it.
  An object is converted by its \<open>toString\<close> method: the inherited one gives
  \<open>[object Object]\<close>, and an own property of that name, which in a JSON value is never a
  function, leaves no method to call, so the conversion throws \<open>TypeError\<close> (the inherited
  \<open>valueOf\<close> returns the object itself and an own \<open>valueOf\<close> is no function either). An
  array joins the strings of its elements with commas, \<open>null\<close> and \<open>undefined\<close> counting
  as empty, and throws when an element does.
\<close>

fun ToString :: "jsval \<Rightarrow> jsstring option" where
  "ToString JUndefined = Some (lit ''undefined'')"
| "ToString JNull = Some (lit ''null'')"
| "ToString (JBool b) = Some (if b then lit ''true'' else lit ''false'')"
| "ToString (JNum n) = Some (numberToString n)"
| "ToString (JStr s) = Some s"
| "ToString (JArr xs) =
     map_option (join (lit '',''))
       (those (map (\<lambda>v. if v = JUndefined \<or> v = JNull then Some [] else ToString v) xs))"
| "ToString (JObj kvs) =
     (if map_of kvs (lit ''toString'') = None then Some (lit ''[object Object]'') else None)"

text \<open>\<open>Number(v)\<close>: an array or object is first turned into a primitive, which is its
  string under the same condition as above.\<close>

fun ToNumber :: "jsval \<Rightarrow> jsnum option" where
  "ToNumber JUndefined = Some NaN"
| "ToNumber JNull = Some (Fin 0)"
| "ToNumber (JBool b) = Some (if b then Fin 1 else Fin 0)"
| "ToNumber (JNum n) = Some n"
| "ToNumber (JStr s) = Some (stringToNumber s)"
| "ToNumber (JArr xs) = map_option stringToNumber (ToString (JArr xs))"
| "ToNumber (JObj kvs) = map_option stringToNumber (ToString (JObj kvs))"

fun ToBoolean :: "jsval \<Rightarrow> bool" where
  "ToBoolean JUndefined = False"
| "ToBoolean JNull = False"
| "ToBoolean (JBool b) = b"
| "ToBoolean (JNum n) = (n \<noteq> NaN \<and> n \<noteq> NegZero \<and> n \<noteq> Fin 0)"
| "ToBoolean (JStr s) = (s \<noteq> [])"
| "ToBoolean (JArr xs) = True"
| "ToBoolean (JObj kvs) = True"

text \<open>\<open>a || b\<close> and \<open>a ?? b\<close>.\<close>

definition orElse :: "jsval \<Rightarrow> jsval \<Rightarrow> jsval" where
  "orElse a b = (if ToBoolean a then a else b)"

definition nullish :: "jsval \<Rightarrow> jsval \<Rightarrow> jsval" where
  "nullish a b = (if a = JNull \<or> a = JUndefined then b else a)"

text \<open>
  \<open>v?.key\<close> for the keys the program reads (\<open>orderNo\<close>, \<open>skuDetail\<close>, \<open>materialConfig\<close> and
  so on): the own property of an object, \<open>undefined\<close> when it is missing and on every other
  value, none of whose prototypes has a property of these names.
\<close>

fun get :: "jsval \<Rightarrow> string \<Rightarrow> jsval" where
  "get (JObj kvs) k = (case map_of kvs (lit k) of Some v \<Rightarrow> v | None \<Rightarrow> JUndefined)"
| "get v k = JUndefined"

text \<open>The number operators the scripts use: \<open>a % b\<close>, \<open>a === b\<close> and \<open>a > b\<close>.\<close>

definition truncRat :: "rat \<Rightarrow> rat" where
  "truncRat q = (if 0 \<le> q then of_int \<lfloor>q\<rfloor> else of_int \<lceil>q\<rceil>)"

fun jsRem :: "jsnum \<Rightarrow> jsnum \<Rightarrow> jsnum" where
  "jsRem NaN b = NaN"
| "jsRem PosInf b = NaN"
| "jsRem NegInf b = NaN"
| "jsRem a NaN = NaN"
| "jsRem a NegZero = NaN"
| "jsRem a PosInf = a"
| "jsRem a NegInf = a"
| "jsRem NegZero (Fin d) = (if d = 0 then NaN else NegZero)"
| "jsRem (Fin n) (Fin d) =
     (if d = 0 then NaN
      else let r = n - d * truncRat (n / d)
           in if r = 0 then (if n < 0 then NegZero else Fin 0) else Fin r)"

fun strictEq :: "jsnum \<Rightarrow> jsnum \<Rightarrow> bool" where
  "strictEq NaN b = False"
| "strictEq a NaN = False"
| "strictEq NegZero b = (b = NegZero \<or> b = Fin 0)"
| "strictEq a NegZero = (a = Fin 0)"
| "strictEq a b = (a = b)"

fun greater :: "jsnum \<Rightarrow> jsnum \<Rightarrow> bool" where
  "greater NaN b = False"
| "greater a NaN = False"
| "greater NegInf b = False"
| "greater a PosInf = False"
| "greater PosInf b = True"
| "greater a NegInf = True"
| "greater NegZero NegZero = False"
| "greater NegZero (Fin y) = (0 > y)"
| "greater (Fin x) NegZero = (x > 0)"
| "greater (Fin x) (Fin y) = (x > y)"

section \<open>The host\<close>

text \<open>
  What the program reads from outside itself: the environment variable
  \<open>GITHUB_RUN_NUMBER\<close> (\<open>None\<close> when unset), the hour of day in Asia/Shanghai (0 to 23), the
  text \<open>Date.toLocaleString\<close> gives for the current time there, and \<open>JSON.parse\<close>, with
  \<open>None\<close> where it throws.
\<close>

record host =
  GITHUB_RUN_NUMBER :: "jsstring option"
  beijingHour :: nat
  nowText :: jsstring
  JSON_parse :: "jsstring \<Rightarrow> jsval option"

definition envValue :: "jsstring option \<Rightarrow> jsval" where
  "envValue e = (case e of None \<Rightarrow> JUndefined | Some s \<Rightarrow> JStr s)"

text \<open>
  The text of \<open>new Intl.DateTimeFormat('zh-CN', {hour: '2-digit', hour12: false, timeZone:
  'Asia/Shanghai'}).format(now)\<close>: in this locale the hour pattern carries the hour
  character, so the two digits of the hour are followed by U+65F6.
\<close>

definition hourText :: "host \<Rightarrow> jsstring" where
  "hourText h =
     [digitChar (int (beijingHour h) div 10), digitChar (int (beijingHour h) mod 10), 0x65F6]"

text \<open>
  An exception is the value thrown. The \<open>TypeError\<close> of a failed conversion is an object
  whose \<open>message\<close> is the text the engine of Node gives it.
\<close>

definition message_TypeError :: jsstring where
  "message_TypeError = lit ''Cannot convert object to primitive value''"

definition typeError :: jsval where
  "typeError = JObj [(lit ''message'', JStr message_TypeError)]"

section \<open>The Chinese literals of the source\<close>

text \<open>The labels of the summary lines, the two mail subjects and the default error
  message, as UTF-16 code units, in the order the source uses them.\<close>

definition label_requestTime :: jsstring where
  "label_requestTime = [0x8BF7, 0x6C42, 0x65F6, 0x95F4]"

definition label_orderNo :: jsstring where
  "label_orderNo = [0x8BA2, 0x5355, 0x53F7]"

definition label_businessOrderNo :: jsstring where
  "label_businessOrderNo = [0x5546, 0x4E1A, 0x8BA2, 0x5355, 0x53F7]"

definition label_orderDate :: jsstring where
  "label_orderDate = [0x4E0B, 0x5355, 0x65F6, 0x95F4]"

definition label_payDate :: jsstring where
  "label_payDate = [0x652F, 0x4ED8, 0x65F6, 0x95F4]"

definition label_buyerName :: jsstring where
  "label_buyerName = [0x59D3, 0x540D]"

definition label_buyerTel :: jsstring where
  "label_buyerTel = [0x624B, 0x673A, 0x53F7]"

definition label_buyerIdNo :: jsstring where
  "label_buyerIdNo = [0x8BC1, 0x4EF6, 0x53F7]"

definition label_city :: jsstring where
  "label_city = [0x6240, 0x5728, 0x57CE, 0x5E02]"

definition label_dealer :: jsstring where
  "label_dealer = [0x8D2D, 0x8F66, 0x95E8, 0x5E97]"

definition label_model :: jsstring where
  "label_model = [0x8F66, 0x578B]"

definition label_version :: jsstring where
  "label_version = [0x7248, 0x672C, 0x002F, 0x8F66, 0x6B3E]"

definition label_color :: jsstring where
  "label_color = [0x989C, 0x8272]"

definition label_retailPrice :: jsstring where
  "label_retailPrice = [0x7EDF, 0x4E00, 0x96F6, 0x552E, 0x4EF7]"

definition label_configName :: jsstring where
  "label_configName = [0x914D, 0x7F6E, 0x5168, 0x79F0]"

definition label_configPrice :: jsstring where
  "label_configPrice = [0x914D, 0x7F6E, 0x96F6, 0x552E, 0x4EF7]"

text \<open>The subject prefix of the VIN notice (\<open>VIN\<close>, four Chinese characters and a
  full-width colon) and the subject of the progress reminder.\<close>

definition subject_vinNotice :: jsstring where
  "subject_vinNotice = [0x0056, 0x0049, 0x004E, 0x751F, 0x6210, 0x901A, 0x77E5, 0xFF1A]"

definition subject_progress :: jsstring where
  "subject_progress =
     [0x8BA2, 0x5355, 0x8FDB, 0x5EA6, 0x63D0, 0x9192, 0xFF1A, 0x6682, 0x672A, 0x751F, 0x6210,
      0x0056, 0x0049, 0x004E]"

definition message_requestFailed :: jsstring where
  "message_requestFailed = [0x8BF7, 0x6C42, 0x5931, 0x8D25]"

text \<open>The yuan sign, U+00A5.\<close>

definition yen :: "16 word" where
  "yen = 0xA5"

section \<open>The summary route: \<open>src/app/api/order/summary/route.ts\<close>\<close>

text \<open>\<open>formatCurrency\<close> and \<open>pick\<close> stand with the same text in the route and in both mail
  scripts of \<open>next.config.ts\<close>. \<open>Number(amount)\<close> and \<open>String(amount)\<close> throw on the objects
  described above.\<close>

definition formatCurrency :: "jsval \<Rightarrow> jsstring option" where
  "formatCurrency amount =
     (if amount = JNull \<or> amount = JUndefined \<or> amount = JStr [] then Some (lit ''--'')
      else do {
        n \<leftarrow> ToNumber amount;
        if n = NaN then ToString amount
        else Some (yen # toLocaleString_zhCN_2 n)
      })"

fun pick :: "jsval list \<Rightarrow> jsval" where
  "pick [] = JStr (lit ''--'')"
| "pick (v # vs) = (if v \<noteq> JNull \<and> v \<noteq> JUndefined \<and> v \<noteq> JStr [] then v else pick vs)"

definition formatRequestTime :: "host \<Rightarrow> jsstring" where
  "formatRequestTime h = nowText h"

record orderSummary =
  requestTime :: jsval
  orderNo :: jsval
  businessOrderNo :: jsval
  orderDate :: jsval
  payDate :: jsval
  buyerName :: jsval
  buyerTel :: jsval
  buyerIdNo :: jsval
  cityName :: jsval
  dealerName :: jsval
  vehicleModel :: jsval
  vehicleVersion :: jsval
  colorName :: jsval
  retailPrice :: jsval
  vehicleVin :: jsval
  configurationFullName :: jsval
  configurationRetailPrice :: jsval

text \<open>The value of \<open>sku\<close> in \<open>buildOrderSummary\<close>: a string is parsed, with the empty
  object where \<open>JSON.parse\<close> throws; anything else is taken as it is, or as the empty object
  when it is falsy.\<close>

definition sku_of :: "host \<Rightarrow> jsval \<Rightarrow> jsval" where
  "sku_of h skuRaw =
     (case skuRaw of
        JStr s \<Rightarrow> (case JSON_parse h s of Some v \<Rightarrow> v | None \<Rightarrow> JObj [])
      | _ \<Rightarrow> orElse skuRaw (JObj []))"

text \<open>The two template literals of lines 54 and 58, which stand with the same text in
  \<open>buildOrderSummaryText\<close> of the mail scripts (lines 90 and 94 there): the province and
  the city joined by a space and trimmed, and the two colours joined by a slash.\<close>

definition cityText :: "jsval \<Rightarrow> jsstring option" where
  "cityText data = do {
     province \<leftarrow> ToString (orElse (get data ''buyerProvinceName'') (JStr []));
     city \<leftarrow> ToString (orElse (get data ''buyerCityName'') (JStr []));
     Some (trim (province @ lit '' '' @ city))
   }"

definition colorText :: "jsval \<Rightarrow> jsstring option" where
  "colorText data = do {
     exterior \<leftarrow> ToString (orElse (get data ''exteriorColor'') (JStr (lit ''--'')));
     interior \<leftarrow> ToString (orElse (get data ''interiorColor'') (JStr (lit ''--'')));
     Some (exterior @ lit '' / '' @ interior)
   }"

text \<open>\<open>buildOrderSummary\<close> returns the summary, or throws (\<open>None\<close>) where one of its
  conversions does.\<close>

definition buildOrderSummary :: "host \<Rightarrow> jsval \<Rightarrow> orderSummary option" where
  "buildOrderSummary h data = do {
     let skuRaw = get data ''skuDetail'';
     let sku = sku_of h skuRaw;
     city \<leftarrow> cityText data;
     color \<leftarrow> colorText data;
     price \<leftarrow> formatCurrency (pick [get data ''retailPrice'', get data ''price'']);
     configPrice \<leftarrow> formatCurrency (pick [get sku ''configurationRetailPrice'',
                                            get (get sku ''materialConfig'') ''totalPrice'']);
     Some \<lparr> requestTime = JStr (formatRequestTime h),
            orderNo = pick [get data ''orderNo'', get data ''orderSn''],
            businessOrderNo = pick [get data ''businessOrderNo'', get data ''businessOrderSn''],
            orderDate = pick [get data ''orderDate'', get data ''orderTime''],
            payDate = pick [get data ''payDate'', get data ''payTime''],
            buyerName = pick [get data ''buyerName'', get data ''realName''],
            buyerTel = pick [get data ''buyerTel'', get data ''mobile''],
            buyerIdNo = pick [get data ''buyerIdNo'', get data ''idNo''],
            cityName = pick [JStr city, get data ''cityName''],
            dealerName = pick [get data ''dealerFullName'', get data ''dealerName'',
                               get data ''storeName''],
            vehicleModel = pick [get data ''vehicleModel'', get data ''carSeriesName''],
            vehicleVersion = pick [get data ''vehicleVersion'', get data ''carTypeName''],
            colorName = pick [JStr color, get data ''colorName''],
            retailPrice = JStr price,
            vehicleVin = nullish (get data ''vehicleVin'') (JStr (lit ''--'')),
            configurationFullName =
              pick [get sku ''configurationFullName'', get (get sku ''materialConfig'') ''fullName''],
            configurationRetailPrice = JStr configPrice \<rparr>
   }"

text \<open>\<open>GET\<close>: what \<open>fetchOrderInfo\<close> did is its input, a payload or a thrown value; the
  answer is the JSON body with its status. The \<open>try\<close> block holds the call of
  \<open>buildOrderSummary\<close> too, so its \<open>TypeError\<close> is answered like a failed request.\<close>

datatype fetched = Returned jsval | Threw jsval

datatype response = Json200 bool orderSummary | Json500 jsval

definition GET_catch :: "jsval \<Rightarrow> response" where
  "GET_catch err = Json500 (orElse (get err ''message'') (JStr message_requestFailed))"

fun GET :: "host \<Rightarrow> fetched \<Rightarrow> response" where
  "GET h (Returned payload) =
     (let data = nullish (get payload ''data'') payload
      in case buildOrderSummary h data of
           Some summary \<Rightarrow> Json200 (ToBoolean (get data ''vehicleVin'')) summary
         | None \<Rightarrow> GET_catch typeError)"
| "GET h (Threw err) = GET_catch err"

section \<open>The two mail scripts of \<open>next.config.ts\<close>\<close>

text \<open>
  The file holds two scripts one after the other: the hourly one (lines 24 to 274), which
  sends the reminder every third run, and the three-hourly one (lines 275 to 491), which
  sends it every second run. Their \<open>safeJsonParse\<close>, \<open>buildOrderSummaryText\<close> and
  \<open>formatRequestTime\<close> are the same text; \<open>main\<close> differs and is \<open>main3\<close> and \<open>main2\<close>
  here.
\<close>

definition script_safeJsonParse :: "host \<Rightarrow> jsval \<Rightarrow> jsval" where
  "script_safeJsonParse h text =
     (case text of
        JStr s \<Rightarrow> if s = [] then JNull
                  else (case JSON_parse h s of Some v \<Rightarrow> v | None \<Rightarrow> JNull)
      | _ \<Rightarrow> JNull)"

text \<open>The arrow function \<open>line\<close>: its template literal converts the value shown.\<close>

definition line :: "jsstring \<Rightarrow> jsval \<Rightarrow> jsstring option" where
  "line k v = do {
     s \<leftarrow> ToString (nullish v (JStr (lit ''--'')));
     Some (k @ lit '': '' @ s)
   }"

text \<open>\<open>buildOrderSummaryText\<close> in two steps: its array \<open>parts\<close>, whose elements are
  evaluated in order, then the lines joined. The script computes \<open>skuObj\<close> and never
  reads it.\<close>

definition parts :: "host \<Rightarrow> jsval \<Rightarrow> jsstring list option" where
  "parts h data =
     (let skuRaw = get data ''skuDetail'';
          skuObj = (case skuRaw of
                      JStr s \<Rightarrow> orElse (script_safeJsonParse h skuRaw) (JObj [])
                    | _ \<Rightarrow> orElse skuRaw (JObj []))
      in those
           [line label_requestTime (JStr (formatRequestTime h)),
            line (lit ''VIN'') (get data ''vehicleVin''),
            line label_orderNo (pick [get data ''orderNo'', get data ''orderSn'']),
            line label_businessOrderNo
              (pick [get data ''businessOrderNo'', get data ''businessOrderSn'']),
            line label_orderDate (pick [get data ''orderDate'', get data ''orderTime'']),
            line label_payDate (pick [get data ''payDate'', get data ''payTime'']),
            line label_buyerName (pick [get data ''buyerName'', get data ''realName'']),
            line label_buyerTel (pick [get data ''buyerTel'', get data ''mobile'']),
            line label_buyerIdNo (pick [get data ''buyerIdNo'', get data ''idNo'']),
            do { city \<leftarrow> cityText data;
                 line label_city (pick [JStr city, get data ''cityName'']) },
            line label_dealer
              (pick [get data ''dealerFullName'', get data ''dealerName'', get data ''storeName'']),
            line label_model (pick [get data ''vehicleModel'', get data ''carSeriesName'']),
            line label_version (pick [get data ''vehicleVersion'', get data ''carTypeName'']),
            do { color \<leftarrow> colorText data;
                 line label_color (pick [JStr color, get data ''colorName'']) },
            do { price \<leftarrow> formatCurrency (pick [get data ''retailPrice'', get data ''price'']);
                 line label_retailPrice (JStr price) }])"

definition buildOrderSummaryText :: "host \<Rightarrow> jsval \<Rightarrow> jsstring option" where
  "buildOrderSummaryText h data = map_option (join [0x0A]) (parts h data)"

definition getBeijingHour :: "host \<Rightarrow> jsnum option" where
  "getBeijingHour h = (let hourStr = hourText h in ToNumber (JStr hourStr))"

text \<open>The local \<open>runNum\<close> of \<open>shouldSendSummaryByCycle\<close>:
  \<open>runStr ? Number(runStr) : NaN\<close>.\<close>

definition runNum :: "host \<Rightarrow> jsnum option" where
  "runNum h =
     (let runStr = envValue (GITHUB_RUN_NUMBER h)
      in if ToBoolean runStr then ToNumber runStr else Some NaN)"

definition shouldSendSummaryByCycle :: "host \<Rightarrow> bool option" where
  "shouldSendSummaryByCycle h = do {
     n \<leftarrow> runNum h;
     if n \<noteq> NaN \<and> greater n (Fin 0) then Some (strictEq (jsRem n (Fin 3)) (Fin 0))
     else do {
       hour \<leftarrow> getBeijingHour h;
       Some (strictEq (jsRem hour (Fin 3)) (Fin 0))
     }
   }"

text \<open>
  \<open>fetchOrderJson\<close>, given the body of a successful response as \<open>res.json()\<close> read it, or
  \<open>null\<close> where that failed: a falsy body is answered by a thrown \<open>Error\<close>.
\<close>

definition fetchOrderJson :: "jsval \<Rightarrow> jsval option" where
  "fetchOrderJson json = (if \<not> ToBoolean json then None else Some json)"

text \<open>What \<open>main\<close> decides: the mail it hands to \<open>sendEmail\<close>, or that none is sent; \<open>None\<close>
  where it throws, which ends the script with no mail.\<close>

datatype mail = Mail (subject: jsstring) (body: jsstring)

datatype decision = Send mail | Skip

definition main3 :: "host \<Rightarrow> jsval \<Rightarrow> decision option" where
  "main3 h json = do {
     payload \<leftarrow> fetchOrderJson json;
     let data = orElse (get payload ''data'') payload;
     let vin = get data ''vehicleVin'';
     summaryText \<leftarrow> buildOrderSummaryText h data;
     if ToBoolean vin then do {
       v \<leftarrow> ToString vin;
       Some (Send (Mail (subject_vinNotice @ v) summaryText))
     } else do {
       cycle \<leftarrow> shouldSendSummaryByCycle h;
       if cycle then Some (Send (Mail subject_progress summaryText)) else Some Skip
     }
   }"

text \<open>The local \<open>runNumber\<close> of the second script's \<open>main\<close>:
  \<open>Number(process.env.GITHUB_RUN_NUMBER || 0) || 0\<close>. It is computed first, and is \<open>n\<close> in
  \<open>main2\<close>.\<close>

definition runNumber :: "host \<Rightarrow> jsnum option" where
  "runNumber h = do {
     n \<leftarrow> ToNumber (orElse (envValue (GITHUB_RUN_NUMBER h)) (JNum (Fin 0)));
     ToNumber (orElse (JNum n) (JNum (Fin 0)))
   }"

definition main2 :: "host \<Rightarrow> jsval \<Rightarrow> decision option" where
  "main2 h json = do {
     n \<leftarrow> runNumber h;
     payload \<leftarrow> fetchOrderJson json;
     let data = orElse (get payload ''data'') payload;
     let vin = get data ''vehicleVin'';
     summaryText \<leftarrow> buildOrderSummaryText h data;
     if ToBoolean vin then do {
       v \<leftarrow> ToString vin;
       Some (Send (Mail (subject_vinNotice @ v) summaryText))
     } else if strictEq (jsRem n (Fin 2)) (Fin 0)
            then Some (Send (Mail subject_progress summaryText))
     else Some Skip
   }"

section \<open>The page: \<open>src/app/page.tsx\<close> and \<open>src/lib/order.ts\<close>\<close>

text \<open>\<open>safeJsonParse\<close> of \<open>lib/order.ts\<close>: \<open>JSON.parse\<close> converts its argument to a string
  inside the \<open>try\<close> block, so a failed conversion gives \<open>null\<close> too.\<close>

definition safeJsonParse :: "host \<Rightarrow> jsval \<Rightarrow> jsval" where
  "safeJsonParse h text =
     (if \<not> ToBoolean text then JNull
      else (case ToString text of
              None \<Rightarrow> JNull
            | Some s \<Rightarrow> (case JSON_parse h s of Some v \<Rightarrow> v | None \<Rightarrow> JNull)))"

definition page_formatCurrency :: "jsval \<Rightarrow> jsstring option" where
  "page_formatCurrency amount =
     (if amount = JNull \<or> amount = JUndefined then Some (lit ''--'')
      else map_option ((#) yen) (ToString amount))"

definition arrayJoin :: "jsstring \<Rightarrow> jsval list \<Rightarrow> jsstring option" where
  "arrayJoin sep xs =
     map_option (join sep)
       (those (map (\<lambda>v. if v = JUndefined \<or> v = JNull then Some [] else ToString v) xs))"

text \<open>\<open>buildOrderSummary\<close> of the page reads \<open>data.buyerProvinceName\<close> with no \<open>?.\<close>, which
  throws on \<open>null\<close> and \<open>undefined\<close>.\<close>

definition page_buildOrderSummary :: "host \<Rightarrow> jsval \<Rightarrow> (jsstring \<times> jsval) list option" where
  "page_buildOrderSummary h data =
     (if data = JNull \<or> data = JUndefined then None
      else do {
        provinceCity \<leftarrow>
          arrayJoin (lit '' '')
            (filter ToBoolean [get data ''buyerProvinceName'', get data ''buyerCityName'']);
        let dealer = orElse (get data ''dealerFullName'')
                       (orElse (get data ''dealerName'') (JStr (lit ''--'')));
        let sku = safeJsonParse h (nullish (get data ''skuDetail'') JNull);
        let dash = JStr (lit ''--'');
        exterior \<leftarrow> ToString (nullish (get data ''exteriorColor'') dash);
        interior \<leftarrow> ToString (nullish (get data ''interiorColor'') dash);
        price \<leftarrow> page_formatCurrency
                   (nullish (get data ''retailPrice'') (nullish (get data ''price'') JNull));
        configPrice \<leftarrow> page_formatCurrency
                         (nullish (get (get sku ''materialConfig'') ''totalPrice'') JNull);
        Some [(label_requestTime, JStr (formatRequestTime h)),
              (label_orderNo, orElse (get data ''orderNo'') dash),
              (label_businessOrderNo, orElse (get data ''businessOrderNo'') dash),
              (label_orderDate, orElse (get data ''orderDate'') dash),
              (label_payDate, orElse (get data ''payDate'') dash),
              (label_buyerName, orElse (get data ''buyerName'') dash),
              (label_buyerTel, orElse (get data ''buyerTel'') dash),
              (label_buyerIdNo, orElse (get data ''buyerIdNo'') dash),
              (label_city, orElse (JStr provinceCity) dash),
              (label_dealer, dealer),
              (label_model, orElse (get data ''vehicleModel'') dash),
              (label_version, orElse (get data ''vehicleVersion'') dash),
              (label_color, JStr (exterior @ lit '' / '' @ interior)),
              (label_retailPrice, JStr price),
              (lit ''VIN'', orElse (get data ''vehicleVin'') dash),
              (label_configName, orElse (get (get sku ''materialConfig'') ''fullName'') dash),
              (label_configPrice, JStr configPrice)]
      })"

section \<open>Vocabulary of the statements\<close>

text \<open>A value is a string; a value is a string or is missing (\<open>null\<close> or \<open>undefined\<close>);
  a value can be converted to a string without a \<open>TypeError\<close>.\<close>

fun isString :: "jsval \<Rightarrow> bool" where
  "isString (JStr s) = True"
| "isString v = False"

definition textual :: "jsval \<Rightarrow> bool" where
  "textual v \<longleftrightarrow> isString v \<or> v = JNull \<or> v = JUndefined"

definition convertible :: "jsval \<Rightarrow> bool" where
  "convertible v \<longleftrightarrow> ToString v \<noteq> None"

text \<open>The fields of a summary, in the order of the object literal of
  \<open>buildOrderSummary\<close>.\<close>

definition summaryFields :: "orderSummary \<Rightarrow> jsval list" where
  "summaryFields s =
     [requestTime s, orderNo s, businessOrderNo s, orderDate s, payDate s, buyerName s,
      buyerTel s, buyerIdNo s, cityName s, dealerName s, vehicleModel s, vehicleVersion s,
      colorName s, retailPrice s, vehicleVin s, configurationFullName s,
      configurationRetailPrice s]"

text \<open>The keys of a record whose values the summary text of the mail scripts may
  convert.\<close>

definition textKeys :: "string list" where
  "textKeys =
     [''vehicleVin'', ''orderNo'', ''orderSn'', ''businessOrderNo'', ''businessOrderSn'',
      ''orderDate'', ''orderTime'', ''payDate'', ''payTime'', ''buyerName'', ''realName'',
      ''buyerTel'', ''mobile'', ''buyerIdNo'', ''idNo'', ''buyerProvinceName'',
      ''buyerCityName'', ''cityName'', ''dealerFullName'', ''dealerName'', ''storeName'',
      ''vehicleModel'', ''carSeriesName'', ''vehicleVersion'', ''carTypeName'',
      ''exteriorColor'', ''interiorColor'', ''colorName'', ''retailPrice'', ''price'']"

text \<open>A digit string grouped in threes from the right by commas, read from its end: one
  to three digits, or three digits, a comma and a grouped rest.\<close>

fun groupedRev :: "jsstring \<Rightarrow> bool" where
  "groupedRev [] = False"
| "groupedRev [a] = isDigit a"
| "groupedRev [a, b] = (isDigit a \<and> isDigit b)"
| "groupedRev [a, b, c] = (isDigit a \<and> isDigit b \<and> isDigit c)"
| "groupedRev (a # b # c # s # r) =
     (isDigit a \<and> isDigit b \<and> isDigit c \<and> s = 0x2C \<and> groupedRev r)"

definition isGrouped :: "jsstring \<Rightarrow> bool" where
  "isGrouped g = groupedRev (rev g)"

text \<open>A number is finite; a number carries the minus sign.\<close>

fun isFinite :: "jsnum \<Rightarrow> bool" where
  "isFinite (Fin r) = True"
| "isFinite NegZero = True"
| "isFinite n = False"

fun signBit :: "jsnum \<Rightarrow> bool" where
  "signBit (Fin r) = (r < 0)"
| "signBit NegZero = True"
| "signBit NegInf = True"
| "signBit n = False"

text \<open>The decimal text of a positive integer, as a run number is written.\<close>

definition decimal :: "int \<Rightarrow> jsstring" where
  "decimal n = map digitChar (intDigits n)"

section \<open>Example hosts\<close>

text \<open>A host with a given run number and hour of day, the time text of that hour and a
  \<open>JSON.parse\<close> that rejects every string.\<close>

definition hostWith :: "string option \<Rightarrow> nat \<Rightarrow> host" where
  "hostWith run hour =
     \<lparr> GITHUB_RUN_NUMBER = map_option lit run, beijingHour = hour,
       nowText = lit ''2025/1/1 ''
                 @ [digitChar (int hour div 10), digitChar (int hour mod 10)] @ lit '':00:00'',
       JSON_parse = (\<lambda>s. None) \<rparr>"

text \<open>A host whose \<open>JSON.parse\<close> accepts one text, with the value it stands for.\<close>

definition hostParsing :: "jsstring \<Rightarrow> jsval \<Rightarrow> host" where
  "hostParsing enc v =
     \<lparr> GITHUB_RUN_NUMBER = None, beijingHour = 9,
       nowText = lit ''2025/1/1 09:00:00'',
       JSON_parse = (\<lambda>s. if s = enc then Some v else None) \<rparr>"

section \<open>Example records\<close>

text \<open>The record of the end-to-end scenario of the specification, and the JSON value
  \<open>{"toString": 1}\<close>, which no conversion to a string or a number accepts.\<close>

definition scenarioRecord :: jsval where
  "scenarioRecord =
     JObj [(lit ''vehicleVin'', JStr (lit ''LSJA1234567890'')),
           (lit ''orderNo'', JStr (lit ''O123'')),
           (lit ''retailPrice'', JNum (Fin 199999))]"

definition unconvertible :: jsval where
  "unconvertible = JObj [(lit ''toString'', JNum (Fin 1))]"

text \<open>The summary text of the empty record \<open>{}\<close> at a given hour: the time and fourteen
  placeholders.\<close>

definition placeholderText :: "nat \<Rightarrow> jsstring" where
  "placeholderText hour =
     join [0x0A]
       [label_requestTime @ lit '': 2025/1/1 ''
          @ [digitChar (int hour div 10), digitChar (int hour mod 10)] @ lit '':00:00'',
        lit ''VIN: --'',
        label_orderNo @ lit '': --'',
        label_businessOrderNo @ lit '': --'',
        label_orderDate @ lit '': --'',
        label_payDate @ lit '': --'',
        label_buyerName @ lit '': --'',
        label_buyerTel @ lit '': --'',
        label_buyerIdNo @ lit '': --'',
        label_city @ lit '': --'',
        label_dealer @ lit '': --'',
        label_model @ lit '': --'',
        label_version @ lit '': --'',
        label_color @ lit '': -- / --'',
        label_retailPrice @ lit '': --'']"

text \<open>A configuration object and its JSON text,
  \<open>{"materialConfig":{"fullName":"Luxury","totalPrice":12.5}}\<close>, with U+0022 written out.\<close>

definition skuObject :: jsval where
  "skuObject =
     JObj [(lit ''materialConfig'',
            JObj [(lit ''fullName'', JStr (lit ''Luxury'')),
                  (lit ''totalPrice'', JNum (Fin (25 / 2)))])]"

definition skuText :: jsstring where
  "skuText =
     lit ''{'' @ [0x22] @ lit ''materialConfig'' @ [0x22] @ lit '':{''
     @ [0x22] @ lit ''fullName'' @ [0x22] @ lit '':'' @ [0x22] @ lit ''Luxury'' @ [0x22]
     @ lit '','' @ [0x22] @ lit ''totalPrice'' @ [0x22] @ lit '':12.5}}''"

section \<open>Facts about the built-in operations\<close>

subsection \<open>Integers are doubles up to 53 bits\<close>

lemma bitLength_nonneg: "0 \<le> bitLength n"
proof (induction n rule: bitLength.induct)
  case (1 n)
  then show ?case by (subst bitLength.simps) simp
qed

lemma bitLength_pos: "0 < n \<Longrightarrow> 0 < bitLength n"
  using bitLength_nonneg [of "n div 2"] by (subst bitLength.simps) simp

lemma bitLength_le: "n < 2 ^ k \<Longrightarrow> bitLength n \<le> int k"
proof (induction k arbitrary: n)
  case 0
  then show ?case by (subst bitLength.simps) simp
next
  case (Suc k)
  have "n div 2 < 2 ^ k" using Suc.prems by simp
  then have "bitLength (n div 2) \<le> int k" by (rule Suc.IH)
  then show ?case by (subst bitLength.simps) simp
qed

lemma roundHalfEven_of_int: "roundHalfEven (of_int k) = k"
  by (simp add: roundHalfEven_def)

lemma roundToDouble_of_int:
  assumes "0 < n" and "n < 2 ^ 53"
  shows "roundToDouble (of_int n) = Fin (of_int n)"
proof -
  define m where "m = nat (53 - bitLength n)"
  have b1: "0 < bitLength n" using assms(1) by (rule bitLength_pos)
  have b2: "bitLength n \<le> 53" using bitLength_le [OF assms(2)] by simp
  have fl: "floorLog2 (of_int n) = bitLength n - 1"
    using assms(1) by (simp add: floorLog2_def)
  have e: "max (floorLog2 (of_int n :: rat) - 52) (- 1074) = - int m"
    using b1 b2 by (simp add: fl m_def)
  have p: "pow2 (- int m) = 1 / 2 ^ m"
    by (cases "m = 0") (simp_all add: pow2_def)
  have q: "(of_int n :: rat) / pow2 (- int m) = of_int (n * 2 ^ m)"
    by (simp add: p)
  have v: "of_int (roundHalfEven ((of_int n :: rat) / pow2 (- int m))) * pow2 (- int m)
             = (of_int n :: rat)"
    by (simp only: q roundHalfEven_of_int) (simp add: p)
  have big: "\<not> 1024 \<le> floorLog2 (of_int n :: rat)"
    using b2 by (simp add: fl)
  have pos: "\<not> (of_int n :: rat) \<le> 0" using assms(1) by simp
  show ?thesis
    unfolding roundToDouble_def Let_def e v using big pos by simp
qed

lemma toDouble_of_int:
  assumes "0 < n" and "n < 2 ^ 53"
  shows "toDouble False (of_int n) = Fin (of_int n)"
  by (simp add: toDouble_def roundToDouble_of_int [OF assms])

subsection \<open>The text of a run number\<close>

lemma isDigit_digitChar: "0 \<le> d \<Longrightarrow> d \<le> 9 \<Longrightarrow> isDigit (digitChar d)"
proof -
  assume "0 \<le> d" and "d \<le> 9"
  then have "d = 0 \<or> d = 1 \<or> d = 2 \<or> d = 3 \<or> d = 4 \<or> d = 5 \<or> d = 6 \<or> d = 7 \<or> d = 8 \<or> d = 9"
    by presburger
  then show ?thesis by (auto simp: isDigit_def digitChar_def)
qed

lemma digitValue_digitChar: "0 \<le> d \<Longrightarrow> d \<le> 9 \<Longrightarrow> digitValue (digitChar d) = d"
proof -
  assume "0 \<le> d" and "d \<le> 9"
  then have "d = 0 \<or> d = 1 \<or> d = 2 \<or> d = 3 \<or> d = 4 \<or> d = 5 \<or> d = 6 \<or> d = 7 \<or> d = 8 \<or> d = 9"
    by presburger
  then show ?thesis by (auto simp: digitValue_def digitChar_def)
qed

lemma intDigits_range: "d \<in> set (intDigits n) \<Longrightarrow> 0 \<le> d \<and> d \<le> 9"
proof (induction n rule: intDigits.induct)
  case (1 n)
  show ?case
  proof (cases "n \<le> 0")
    case True
    with "1.prems" show ?thesis by (subst (asm) intDigits.simps) simp
  next
    case False
    from "1.prems" have "d \<in> set (intDigits (n div 10)) \<or> d = n mod 10"
      using False by (subst (asm) intDigits.simps) auto
    then show ?thesis using "1.IH" [OF False] by auto
  qed
qed

lemma intDigits_nonempty: "0 < n \<Longrightarrow> intDigits n \<noteq> []"
  by (subst intDigits.simps) simp

lemma decimal_digits: "list_all isDigit (decimal n)"
  using intDigits_range [of _ n] by (auto simp: decimal_def list_all_iff isDigit_digitChar)

lemma decimal_nonempty: "0 < n \<Longrightarrow> decimal n \<noteq> []"
  by (simp add: decimal_def intDigits_nonempty)

lemma radixValue_snoc: "radixValue b (ds @ [c]) = radixValue b ds * b + digitValue c"
  by (simp add: radixValue_def)

lemma radixValue_decimal: "0 \<le> n \<Longrightarrow> radixValue 10 (decimal n) = n"
proof (induction n rule: intDigits.induct)
  case (1 n)
  show ?case
  proof (cases "n \<le> 0")
    case True
    with "1.prems" have "n = 0" by simp
    then show ?thesis by (simp add: decimal_def intDigits.simps radixValue_def)
  next
    case False
    have d: "decimal n = decimal (n div 10) @ [digitChar (n mod 10)]"
      using False by (simp add: decimal_def intDigits.simps [of n])
    have "radixValue 10 (decimal (n div 10)) = n div 10"
      using "1.IH" [OF False] "1.prems" by (simp add: decimal_def)
    then show ?thesis
      by (simp add: d radixValue_snoc digitValue_digitChar)
  qed
qed

text \<open>A string of digits denotes its value.\<close>

lemma isDigit_not_space: "isDigit c \<Longrightarrow> \<not> isWhiteSpace c"
  by (auto simp: isDigit_def isWhiteSpace_def word_le_nat_alt)

lemma trim_digits: "list_all isDigit s \<Longrightarrow> trim s = s"
proof (cases s rule: rev_cases)
  case Nil
  then show ?thesis by (simp add: trim_def)
next
  case (snoc ys y)
  assume a: "list_all isDigit s"
  show ?thesis
  proof (cases s)
    case Nil
    then show ?thesis by (simp add: trim_def)
  next
    case (Cons x xs)
    have x: "\<not> isWhiteSpace x" using a Cons by (simp add: isDigit_not_space)
    have y: "\<not> isWhiteSpace y" using a snoc by (simp add: isDigit_not_space)
    have "dropWhile isWhiteSpace s = s" using x Cons by simp
    moreover have "dropWhile isWhiteSpace (rev s) = rev s" using y snoc by simp
    ultimately show ?thesis by (simp add: trim_def)
  qed
qed

lemma parseLiteral_digits:
  assumes "list_all isDigit s" and "s \<noteq> []"
  shows "parseLiteral s = Magnitude False (of_int (radixValue 10 s))"
proof -
  obtain c cs where s: "s = c # cs" using assms(2) by (cases s) auto
  have c: "isDigit c" and cs: "list_all isDigit cs" using assms(1) s by simp_all
  have nx: "take 2 s \<noteq> lit ''0x''" "take 2 s \<noteq> lit ''0X''" "take 2 s \<noteq> lit ''0o''"
    "take 2 s \<noteq> lit ''0O''" "take 2 s \<noteq> lit ''0b''" "take 2 s \<noteq> lit ''0B''"
    using cs by (cases cs; auto simp: s lit_def isDigit_def)+
  have sg: "take 1 s \<noteq> lit ''-''" "take 1 s \<noteq> lit ''+''"
    using c by (auto simp: s lit_def isDigit_def)
  have inf: "s \<noteq> lit ''Infinity''"
    using c by (auto simp: s lit_def isDigit_def)
  have e: "\<forall>x \<in> set s. \<not> (x = 0x65 \<or> x = 0x45)"
    using assms(1) by (auto simp: list_all_iff isDigit_def)
  have dot: "\<forall>x \<in> set s. x \<noteq> 0x2E"
    using assms(1) by (auto simp: list_all_iff isDigit_def)
  have tw: "takeWhile (\<lambda>c. c \<noteq> 0x65 \<and> c \<noteq> 0x45) s = s"
    using e by (simp add: takeWhile_eq_all_conv)
  have dw: "dropWhile (\<lambda>c. c \<noteq> 0x65 \<and> c \<noteq> 0x45) s = []"
    using e by (simp add: dropWhile_eq_Nil_conv)
  have tw2: "takeWhile (\<lambda>c. c \<noteq> 0x2E) s = s"
    using dot by (simp add: takeWhile_eq_all_conv)
  have dw2: "dropWhile (\<lambda>c. c \<noteq> 0x2E) s = []"
    using dot by (simp add: dropWhile_eq_Nil_conv)
  have u: "unsignedDecimal s = Some (of_int (radixValue 10 s))"
    using assms e by (simp add: unsignedDecimal_def Let_def tw dw tw2 dw2 pow10_def radixValue_def)
  show ?thesis
    using assms(2) nx sg inf
    by (simp add: parseLiteral_def trim_digits [OF assms(1)] signedDecimal_def Let_def u)
qed

lemma stringToNumber_decimal:
  assumes "0 < n" and "n < 2 ^ 53"
  shows "stringToNumber (decimal n) = Fin (of_int n)"
  using assms
  by (simp add: stringToNumber_def parseLiteral_digits decimal_digits decimal_nonempty
      radixValue_decimal toDouble_of_int)

subsection \<open>The text of the hour\<close>

text \<open>A string holding the hour character U+65F6 denotes no number, so the hour that
  \<open>getBeijingHour\<close> returns is \<open>NaN\<close> on every host.\<close>

lemma in_dropWhile: "x \<in> set xs \<Longrightarrow> \<not> P x \<Longrightarrow> x \<in> set (dropWhile P xs)"
  by (induction xs) auto

lemma in_drop: "x \<in> set xs \<Longrightarrow> x \<notin> set (take n xs) \<Longrightarrow> x \<in> set (drop n xs)"
proof -
  assume a: "x \<in> set xs" and b: "x \<notin> set (take n xs)"
  have "set xs = set (take n xs) \<union> set (drop n xs)"
    by (metis append_take_drop_id set_append)
  with a b show ?thesis by simp
qed

lemma in_trim: "x \<in> set s \<Longrightarrow> \<not> isWhiteSpace x \<Longrightarrow> x \<in> set (trim s)"
  by (simp add: trim_def in_dropWhile)

lemma dropWhile_hd: "dropWhile P xs \<noteq> [] \<Longrightarrow> \<exists>y ys. dropWhile P xs = y # ys \<and> \<not> P y"
  by (metis hd_dropWhile list.collapse)

lemma hourMark_facts:
  "\<not> isWhiteSpace (0x65F6 :: 16 word)" "\<not> isDigit (0x65F6 :: 16 word)"
  "digitValue (0x65F6 :: 16 word) = 99"
  by (simp_all add: isWhiteSpace_def isDigit_def digitValue_def)

lemma radixLiteral_hourMark:
  assumes "(0x65F6 :: 16 word) \<in> set ds" and "b \<le> 16"
  shows "radixLiteral b ds = NotNumeric"
proof -
  have "\<not> list_all (\<lambda>c. digitValue c < b) ds"
    using assms hourMark_facts(3) by (auto simp: list_all_iff intro!: bexI [of _ "0x65F6"])
  then show ?thesis by (simp add: radixLiteral_def)
qed

lemma unsignedDecimal_hourMark:
  assumes c: "(0x65F6 :: 16 word) \<in> set u"
  shows "unsignedDecimal u = None"
proof -
  define isE where "isE = (\<lambda>c :: 16 word. \<not> (c = 0x65 \<or> c = 0x45))"
  define m where "m = takeWhile isE u"
  define ex where "ex = dropWhile isE u"
  define ip where "ip = takeWhile (\<lambda>c. c \<noteq> 0x2E) m"
  define dd where "dd = dropWhile (\<lambda>c. c \<noteq> 0x2E) m"
  define es where "es = drop 1 ex"
  define ed where "ed = (if take 1 es = lit ''-'' \<or> take 1 es = lit ''+'' then drop 1 es else es)"
  have u: "u = m @ ex" by (simp add: m_def ex_def)
  have mm: "m = ip @ dd" by (simp add: ip_def dd_def)
  have bad: "\<not> list_all isDigit ip \<or> \<not> list_all isDigit (drop 1 dd)
             \<or> (ex \<noteq> [] \<and> \<not> list_all isDigit ed)"
  proof -
    from c u mm consider "(0x65F6 :: 16 word) \<in> set ip" | "(0x65F6 :: 16 word) \<in> set dd"
      | "(0x65F6 :: 16 word) \<in> set ex" by auto
    then show ?thesis
    proof cases
      case 1
      then show ?thesis using hourMark_facts(2) by (auto simp: list_all_iff)
    next
      case 2
      then have "dd \<noteq> []" by auto
      then obtain y ys where d: "dd = y # ys" and y: "\<not> y \<noteq> 0x2E"
        unfolding dd_def using dropWhile_hd [of "\<lambda>c. c \<noteq> 0x2E" m] by blast
      with 2 have "(0x65F6 :: 16 word) \<in> set ys" by auto
      then show ?thesis using hourMark_facts(2) d by (auto simp: list_all_iff)
    next
      case 3
      then have ne: "ex \<noteq> []" by auto
      then obtain y ys where d: "ex = y # ys" and y: "\<not> isE y"
        unfolding ex_def using dropWhile_hd [of isE u] by blast
      with 3 have "(0x65F6 :: 16 word) \<in> set es" by (auto simp: es_def isE_def)
      then have "(0x65F6 :: 16 word) \<in> set ed"
        by (cases es) (auto simp: ed_def lit_def)
      then show ?thesis using hourMark_facts(2) ne by (auto simp: list_all_iff)
    qed
  qed
  show ?thesis
    using bad
    unfolding unsignedDecimal_def Let_def ed_def es_def dd_def ip_def ex_def m_def isE_def
    by auto
qed

lemma parseLiteral_hourMark:
  assumes c: "(0x65F6 :: 16 word) \<in> set s"
  shows "parseLiteral s = NotNumeric"
proof -
  define t where "t = trim s"
  have t: "(0x65F6 :: 16 word) \<in> set t"
    unfolding t_def using c hourMark_facts(1) by (rule in_trim)
  then have ne: "t \<noteq> []" by auto
  have d2: "(0x65F6 :: 16 word) \<in> set (drop 2 t)"
    if "take 2 t \<in> {lit ''0x'', lit ''0X'', lit ''0o'', lit ''0O'', lit ''0b'', lit ''0B''}"
  proof (rule in_drop [OF t])
    show "(0x65F6 :: 16 word) \<notin> set (take 2 t)" using that by (auto simp: lit_def)
  qed
  have d1: "(0x65F6 :: 16 word) \<in> set (drop 1 t)"
    if "take 1 t = lit ''-'' \<or> take 1 t = lit ''+''"
  proof (rule in_drop [OF t])
    show "(0x65F6 :: 16 word) \<notin> set (take 1 t)" using that by (auto simp: lit_def)
  qed
  have inf: "(0x65F6 :: 16 word) \<notin> set (lit ''Infinity'')" by (simp add: lit_def)
  have sd: "signedDecimal t = NotNumeric"
  proof (cases "take 1 t = lit ''-'' \<or> take 1 t = lit ''+''")
    case True
    have "drop 1 t \<noteq> lit ''Infinity''" using d1 [OF True] inf by metis
    then show ?thesis
      using True unsignedDecimal_hourMark [OF d1 [OF True]]
      by (auto simp: signedDecimal_def Let_def)
  next
    case False
    have "t \<noteq> lit ''Infinity''" using t inf by metis
    then show ?thesis
      using False unsignedDecimal_hourMark [OF t]
      by (auto simp: signedDecimal_def Let_def)
  qed
  show ?thesis
    unfolding parseLiteral_def Let_def
    apply (fold t_def)
    using ne sd d2 by (auto simp: radixLiteral_hourMark)
qed

lemma stringToNumber_hourMark: "(0x65F6 :: 16 word) \<in> set s \<Longrightarrow> stringToNumber s = NaN"
  by (simp add: stringToNumber_def parseLiteral_hourMark)

lemma getBeijingHour_NaN: "getBeijingHour h = Some NaN"
  by (simp add: getBeijingHour_def hourText_def stringToNumber_hourMark)

subsection \<open>Remainders and trimming\<close>

lemma truncRat_int: "\<exists>t::int. truncRat q = of_int t"
  by (auto simp: truncRat_def)

lemma truncRat_of_int: "truncRat (of_int k) = of_int k"
  by (simp add: truncRat_def)

text \<open>\<open>n % d === 0\<close> on finite numbers says that \<open>n\<close> is an integer multiple of \<open>d\<close>.\<close>

lemma strictEq_jsRem_Fin:
  assumes "d \<noteq> 0"
  shows "strictEq (jsRem (Fin r) (Fin d)) (Fin 0) \<longleftrightarrow> (\<exists>k::int. r = d * of_int k)"
proof -
  obtain t :: int where t: "truncRat (r / d) = of_int t"
    using truncRat_int by blast
  show ?thesis
  proof (cases "r - d * truncRat (r / d) = 0")
    case True
    then have "r = d * of_int t" using t by simp
    then have "\<exists>k::int. r = d * of_int k" by blast
    with True assms show ?thesis by (simp add: Let_def)
  next
    case False
    have "\<not> (\<exists>k::int. r = d * of_int k)"
    proof
      assume "\<exists>k::int. r = d * of_int k"
      then obtain k :: int where k: "r = d * of_int k" by blast
      then have "r / d = of_int k" using assms by simp
      then have "truncRat (r / d) = of_int k" by (simp only: truncRat_of_int)
      then have "r - d * truncRat (r / d) = r - d * of_int k" by (simp only:)
      also have "\<dots> = 0" using k by simp
      finally show False using False by blast
    qed
    with False assms show ?thesis by (simp add: Let_def)
  qed
qed

lemma multiple_of_int:
  "0 < d \<Longrightarrow> (\<exists>k::int. (of_int n :: rat) = of_int d * of_int k) \<longleftrightarrow> n mod d = 0"
proof
  assume "\<exists>k::int. (of_int n :: rat) = of_int d * of_int k"
  then obtain k :: int where "(of_int n :: rat) = of_int (d * k)" by auto
  then have "n = d * k" using of_int_eq_iff by blast
  then show "n mod d = 0" by simp
next
  assume "0 < d" "n mod d = 0"
  then obtain k where "n = d * k" by (meson dvd_def mod_eq_0_iff_dvd)
  then have "(of_int n :: rat) = of_int d * of_int k" by simp
  then show "\<exists>k::int. (of_int n :: rat) = of_int d * of_int k" by blast
qed

lemma isWhiteSpace_space: "isWhiteSpace 0x20"
  by (simp add: isWhiteSpace_def)

lemma dropWhile_all: "\<forall>c \<in> set p. P c \<Longrightarrow> dropWhile P p = []"
  by (induction p) auto

lemma trim_empty_iff: "trim p = [] \<longleftrightarrow> (\<forall>c \<in> set p. isWhiteSpace c)"
proof
  assume e: "trim p = []"
  show "\<forall>c \<in> set p. isWhiteSpace c"
  proof (rule ccontr)
    assume "\<not> (\<forall>c \<in> set p. isWhiteSpace c)"
    then have ne: "dropWhile isWhiteSpace p \<noteq> []"
      by (induction p) auto
    then have "\<not> isWhiteSpace (hd (dropWhile isWhiteSpace p))"
      by (rule hd_dropWhile)
    moreover have "hd (dropWhile isWhiteSpace p) \<in> set (rev (dropWhile isWhiteSpace p))"
      using ne by simp
    ultimately have "dropWhile isWhiteSpace (rev (dropWhile isWhiteSpace p)) \<noteq> []"
      by (metis dropWhile_eq_Nil_conv)
    with e show False by (simp add: trim_def)
  qed
next
  assume "\<forall>c \<in> set p. isWhiteSpace c"
  then show "trim p = []" by (simp add: trim_def dropWhile_all)
qed

text \<open>A blank appended to a string is trimmed away again.\<close>

lemma trim_snoc_space: "trim (p @ lit '' '') = trim p"
proof (cases "\<forall>c \<in> set p. isWhiteSpace c")
  case True
  then have "\<forall>c \<in> set (p @ lit '' ''). isWhiteSpace c"
    using isWhiteSpace_space by (simp add: lit_def)
  with True show ?thesis by (simp only: iffD2 [OF trim_empty_iff])
next
  case False
  then have "dropWhile isWhiteSpace (p @ [0x20]) = dropWhile isWhiteSpace p @ [0x20]"
    by (auto simp: dropWhile_append1)
  then show ?thesis using isWhiteSpace_space by (simp add: trim_def lit_def)
qed

subsection \<open>Keys\<close>

text \<open>Different ASCII literals are different strings.\<close>

lemma unat_of_char: "unat (of_char c :: 16 word) = of_char c"
proof -
  have "(of_char c :: nat) < 2 ^ 16"
    by (rule less_trans [OF nat_of_char_less_256]) simp
  then have "(of_char c :: nat) mod 2 ^ 16 = of_char c" by (rule mod_less)
  moreover have "(of_char c :: 16 word) = of_nat (of_char c)" by (simp only: of_nat_of_char)
  ultimately show ?thesis by (simp add: unat_of_nat)
qed

lemma lit_inject: "lit a = lit b \<longleftrightarrow> a = b"
proof
  assume "lit a = lit b"
  then have "map unat (lit a) = map unat (lit b)" by simp
  then have "map (of_char :: char \<Rightarrow> nat) a = map of_char b"
    by (simp add: lit_def unat_of_char comp_def)
  then show "a = b"
    by (simp add: inj_map_eq_map inj_on_def)
qed simp

subsection \<open>Conversions that cannot fail\<close>

lemma those_ne_None_iff: "those xs \<noteq> None \<longleftrightarrow> (\<forall>x \<in> set xs. x \<noteq> None)"
  by (induction xs) (auto split: option.splits)

lemma those_Some_nth:
  "those xs = Some ys \<Longrightarrow> length ys = length xs \<and> (\<forall>i < length xs. xs ! i = Some (ys ! i))"
proof (induction xs arbitrary: ys)
  case Nil
  then show ?case by simp
next
  case (Cons x xs)
  from Cons.prems obtain y zs where x: "x = Some y" and zs: "those xs = Some zs"
    and ys: "ys = y # zs"
    by (auto split: option.splits)
  from Cons.IH [OF zs] show ?case
    by (auto simp: x ys nth_Cons split: nat.splits)
qed

lemma convertible_primitive:
  "convertible JUndefined" "convertible JNull" "convertible (JBool b)" "convertible (JNum n)"
  "convertible (JStr s)"
  by (simp_all add: convertible_def)

lemma convertible_falsy: "\<not> ToBoolean v \<Longrightarrow> convertible v"
  by (cases v) (simp_all add: convertible_def)

lemma convertible_orElse: "convertible (orElse a (JStr s)) \<longleftrightarrow> convertible a"
  using convertible_falsy [of a] by (auto simp: orElse_def convertible_primitive)

lemma convertible_nullish: "convertible (nullish a (JStr s)) \<longleftrightarrow> convertible a"
  by (auto simp: nullish_def convertible_primitive)

lemma convertible_pick: "\<forall>v \<in> set vs. convertible v \<Longrightarrow> convertible (pick vs)"
  by (induction vs) (simp_all add: convertible_primitive)

lemma line_eq_None: "line k v = None \<longleftrightarrow> \<not> convertible v"
  using convertible_nullish [of v "lit ''--''"]
  by (auto simp: line_def convertible_def bind_eq_None_conv)

lemma ToNumber_eq_None: "ToNumber v = None \<longleftrightarrow> \<not> convertible v"
  by (cases v) (simp_all add: convertible_def del: ToString.simps(6,7))

lemma formatCurrency_eq_None: "formatCurrency v = None \<longleftrightarrow> \<not> convertible v"
proof (cases "convertible v")
  case True
  then obtain n s where "ToNumber v = Some n" and "ToString v = Some s"
    using ToNumber_eq_None [of v] by (auto simp: convertible_def)
  with True show ?thesis by (simp add: formatCurrency_def)
next
  case False
  then have "ToNumber v = None" and "v \<noteq> JNull" and "v \<noteq> JUndefined" and "v \<noteq> JStr []"
    using ToNumber_eq_None [of v] convertible_primitive by auto
  with False show ?thesis by (simp add: formatCurrency_def)
qed

lemma cityText_eq_None:
  "cityText data = None \<longleftrightarrow>
     \<not> convertible (get data ''buyerProvinceName'') \<or> \<not> convertible (get data ''buyerCityName'')"
  using convertible_orElse [of "get data ''buyerProvinceName''" "[]"]
        convertible_orElse [of "get data ''buyerCityName''" "[]"]
  by (auto simp: cityText_def convertible_def bind_eq_None_conv)

lemma colorText_eq_None:
  "colorText data = None \<longleftrightarrow>
     \<not> convertible (get data ''exteriorColor'') \<or> \<not> convertible (get data ''interiorColor'')"
  using convertible_orElse [of "get data ''exteriorColor''" "lit ''--''"]
        convertible_orElse [of "get data ''interiorColor''" "lit ''--''"]
  by (auto simp: colorText_def convertible_def bind_eq_None_conv)

text \<open>When the summary text of the mail scripts can be built.\<close>

lemma text_builds:
  assumes "\<forall>k \<in> set textKeys. convertible (get data k)"
  shows "buildOrderSummaryText h data \<noteq> None"
proof -
  have k: "convertible (get data k)" if "k \<in> set textKeys" for k
    using assms that by blast
  have p2: "convertible (pick [get data a, get data b])"
    if "a \<in> set textKeys" and "b \<in> set textKeys" for a b
    using k [OF that(1)] k [OF that(2)] by (intro convertible_pick) simp
  have p3: "convertible (pick [get data a, get data b, get data c])"
    if "a \<in> set textKeys" and "b \<in> set textKeys" and "c \<in> set textKeys" for a b c
    using k [OF that(1)] k [OF that(2)] k [OF that(3)] by (intro convertible_pick) simp
  have vin: "line (lit ''VIN'') (get data ''vehicleVin'') \<noteq> None"
    using k [of "''vehicleVin''"] by (simp add: line_eq_None textKeys_def)
  have city: "(do { city \<leftarrow> cityText data;
                    line label_city (pick [JStr city, get data ''cityName'']) }) \<noteq> None"
  proof -
    have "cityText data \<noteq> None"
      using k [of "''buyerProvinceName''"] k [of "''buyerCityName''"]
      by (simp add: cityText_eq_None textKeys_def)
    then obtain c where c: "cityText data = Some c" by blast
    have "convertible (pick [JStr c, get data ''cityName''])"
      using k [of "''cityName''"]
      by (intro convertible_pick) (simp add: convertible_primitive textKeys_def)
    then show ?thesis by (simp add: c line_eq_None del: pick.simps)
  qed
  have color: "(do { color \<leftarrow> colorText data;
                     line label_color (pick [JStr color, get data ''colorName'']) }) \<noteq> None"
  proof -
    have "colorText data \<noteq> None"
      using k [of "''exteriorColor''"] k [of "''interiorColor''"]
      by (simp add: colorText_eq_None textKeys_def)
    then obtain c where c: "colorText data = Some c" by blast
    have "convertible (pick [JStr c, get data ''colorName''])"
      using k [of "''colorName''"]
      by (intro convertible_pick) (simp add: convertible_primitive textKeys_def)
    then show ?thesis by (simp add: c line_eq_None del: pick.simps)
  qed
  have price: "(do { price \<leftarrow> formatCurrency (pick [get data ''retailPrice'', get data ''price'']);
                     line label_retailPrice (JStr price) }) \<noteq> None"
  proof -
    have "convertible (pick [get data ''retailPrice'', get data ''price''])"
      using k [of "''retailPrice''"] k [of "''price''"]
      by (intro convertible_pick) (simp add: textKeys_def)
    then obtain p where
      "formatCurrency (pick [get data ''retailPrice'', get data ''price'']) = Some p"
      using formatCurrency_eq_None by blast
    then show ?thesis by (simp add: line_eq_None convertible_primitive del: pick.simps)
  qed
  have "parts h data \<noteq> None"
    unfolding parts_def Let_def those_ne_None_iff
    using vin city color price
    by (simp add: p2 p3 textKeys_def line_eq_None convertible_primitive
          del: pick.simps not_None_eq)
  then show ?thesis by (simp add: buildOrderSummaryText_def)
qed

text \<open>The summary text reads neither the run number nor the hour.\<close>

lemma text_cadence_free:
  "buildOrderSummaryText (h\<lparr>GITHUB_RUN_NUMBER := r, beijingHour := hr\<rparr>) data
     = buildOrderSummaryText h data"
  by (simp add: buildOrderSummaryText_def parts_def formatRequestTime_def
      script_safeJsonParse_def)

text \<open>A built text has converted the VIN it shows.\<close>

lemma text_converts_vin:
  assumes "buildOrderSummaryText h data = Some t"
  shows "convertible (get data ''vehicleVin'')"
proof -
  from assms obtain ps where "parts h data = Some ps"
    by (auto simp: buildOrderSummaryText_def)
  then have "parts h data \<noteq> None" by simp
  then have "line (lit ''VIN'') (get data ''vehicleVin'') \<noteq> None"
    unfolding parts_def Let_def those_ne_None_iff by (simp del: not_None_eq)
  then show ?thesis by (simp add: line_eq_None)
qed

section \<open>Properties of the selection primitive\<close>

lemma pick_skip:
  "\<forall>u \<in> set pre. u = JNull \<or> u = JUndefined \<or> u = JStr [] \<Longrightarrow> pick (pre @ cs) = pick cs"
  by (induction pre) auto

lemma pick_defined: "pick cs \<noteq> JNull \<and> pick cs \<noteq> JUndefined \<and> pick cs \<noteq> JStr []"
  by (induction cs) (auto simp: lit_def)

text \<open>
  Claim C6. In any candidate list, \<open>pick\<close> returns the first candidate that is not \<open>null\<close>,
  not \<open>undefined\<close> and not the empty string, as it is and whatever follows it; when no
  candidate qualifies it returns the placeholder \<open>"--"\<close>.
\<close>

theorem pick_first_non_empty_wins:
  "((\<forall>u \<in> set pre. u = JNull \<or> u = JUndefined \<or> u = JStr []) \<and>
      v \<noteq> JNull \<and> v \<noteq> JUndefined \<and> v \<noteq> JStr []
      \<longrightarrow> pick (pre @ v # post) = v)
   \<and> ((\<forall>u \<in> set cs. u = JNull \<or> u = JUndefined \<or> u = JStr [])
      \<longrightarrow> pick cs = JStr (lit ''--''))"
  using pick_skip [of pre "v # post"] pick_skip [of cs "[]"] by auto

theorem pick_first_non_empty_wins_witness:
  "pick ([JNull, JStr [], JUndefined] @ JStr (lit ''A'') # [JStr (lit ''B''), JNull])
     = JStr (lit ''A'')
   \<and> pick [JUndefined, JNull, JStr []] = JStr (lit ''--'')"
  using pick_first_non_empty_wins
          [of "[JNull, JStr [], JUndefined]" "JStr (lit ''A'')" "[JStr (lit ''B''), JNull]"
              "[JUndefined, JNull, JStr []]"]
  by (simp add: lit_def)

section \<open>The notification decision\<close>

lemma get_truthy_object: "ToBoolean (get d k) \<Longrightarrow> ToBoolean d"
  by (cases d) simp_all

lemma payload_truthy:
  assumes "ToBoolean (get (orElse (get json ''data'') json) k)"
  shows "ToBoolean json"
proof (cases "ToBoolean (get json ''data'')")
  case True
  then show ?thesis by (rule get_truthy_object)
next
  case False
  with assms have "ToBoolean (get json k)" by (simp add: orElse_def)
  then show ?thesis by (rule get_truthy_object)
qed

lemma bind_Some_map: "x \<bind> (\<lambda>v. Some (f v)) = map_option f x"
  by (cases x) simp_all

lemma runNumber_total: "runNumber h \<noteq> None"
  by (auto simp: runNumber_def envValue_def orElse_def bind_eq_None_conv split: option.splits)

lemma main3_vin:
  assumes "ToBoolean (get (orElse (get json ''data'') json) ''vehicleVin'')"
  shows "main3 h json =
           (case buildOrderSummaryText h (orElse (get json ''data'') json) of
              None \<Rightarrow> None
            | Some t \<Rightarrow>
                map_option (\<lambda>v. Send (Mail (subject_vinNotice @ v) t))
                  (ToString (get (orElse (get json ''data'') json) ''vehicleVin'')))"
  using assms payload_truthy [OF assms]
  by (auto simp: main3_def fetchOrderJson_def Let_def bind_Some_map split: option.splits)

lemma main2_vin:
  assumes "ToBoolean (get (orElse (get json ''data'') json) ''vehicleVin'')"
  shows "main2 h json =
           (case buildOrderSummaryText h (orElse (get json ''data'') json) of
              None \<Rightarrow> None
            | Some t \<Rightarrow>
                map_option (\<lambda>v. Send (Mail (subject_vinNotice @ v) t))
                  (ToString (get (orElse (get json ''data'') json) ''vehicleVin'')))"
proof -
  obtain n where "runNumber h = Some n"
    using runNumber_total [of h] by blast
  then show ?thesis
    using assms payload_truthy [OF assms]
    by (auto simp: main2_def fetchOrderJson_def Let_def bind_Some_map split: option.splits)
qed

text \<open>
  Claim C1, as the code has it. Both scripts build the summary text before they test
  \<open>if (vin)\<close>, so a record whose text cannot be built makes them throw and send nothing,
  VIN or not. When the record has a VIN (the field is truthy) and the text is built, both
  scripts decide to send, with the subject made of the VIN-notice prefix and the VIN, a
  string VIN standing there as it is, and with the text as the body. The decision is the
  same for every run number and every hour: the cadence is not consulted. The text is built
  whenever none of the values it shows fails to convert to a string, as is the case when
  they are strings, numbers, booleans or \<open>null\<close>.
\<close>

theorem vin_notice_has_priority:
  assumes "data = orElse (get json ''data'') json"
      and "ToBoolean (get data ''vehicleVin'')"
  shows "(\<forall>t. buildOrderSummaryText h data = Some t \<longrightarrow>
            (\<exists>v. ToString (get data ''vehicleVin'') = Some v
                \<and> main3 h json = Some (Send (Mail (subject_vinNotice @ v) t))
                \<and> main2 h json = Some (Send (Mail (subject_vinNotice @ v) t))))
       \<and> (\<forall>t s. buildOrderSummaryText h data = Some t \<and> get data ''vehicleVin'' = JStr s \<longrightarrow>
            main3 h json = Some (Send (Mail (subject_vinNotice @ s) t))
          \<and> main2 h json = Some (Send (Mail (subject_vinNotice @ s) t)))
       \<and> (buildOrderSummaryText h data = None \<longrightarrow> main3 h json = None \<and> main2 h json = None)
       \<and> ((\<forall>k \<in> set textKeys. convertible (get data k)) \<longrightarrow>
            buildOrderSummaryText h data \<noteq> None)
       \<and> main3 (h\<lparr>GITHUB_RUN_NUMBER := r, beijingHour := hr\<rparr>) json = main3 h json
       \<and> main2 (h\<lparr>GITHUB_RUN_NUMBER := r, beijingHour := hr\<rparr>) json = main2 h json"
proof -
  have v: "ToBoolean (get (orElse (get json ''data'') json) ''vehicleVin'')"
    using assms by simp
  have m3: "main3 k json =
              (case buildOrderSummaryText k data of
                 None \<Rightarrow> None
               | Some t \<Rightarrow>
                   map_option (\<lambda>v. Send (Mail (subject_vinNotice @ v) t))
                     (ToString (get data ''vehicleVin'')))" for k
    unfolding assms(1) by (rule main3_vin [OF v])
  have m2: "main2 k json =
              (case buildOrderSummaryText k data of
                 None \<Rightarrow> None
               | Some t \<Rightarrow>
                   map_option (\<lambda>v. Send (Mail (subject_vinNotice @ v) t))
                     (ToString (get data ''vehicleVin'')))" for k
    unfolding assms(1) by (rule main2_vin [OF v])
  have A: "\<exists>v. ToString (get data ''vehicleVin'') = Some v
              \<and> main3 h json = Some (Send (Mail (subject_vinNotice @ v) t))
              \<and> main2 h json = Some (Send (Mail (subject_vinNotice @ v) t))"
    if t: "buildOrderSummaryText h data = Some t" for t
  proof -
    obtain w where "ToString (get data ''vehicleVin'') = Some w"
      using text_converts_vin [OF t] by (auto simp: convertible_def)
    then show ?thesis by (simp add: m3 m2 t)
  qed
  have B: "main3 h json = Some (Send (Mail (subject_vinNotice @ s) t))
         \<and> main2 h json = Some (Send (Mail (subject_vinNotice @ s) t))"
    if "buildOrderSummaryText h data = Some t \<and> get data ''vehicleVin'' = JStr s" for t s
    using that by (simp add: m3 m2)
  have C: "main3 h json = None \<and> main2 h json = None" if "buildOrderSummaryText h data = None"
    using that by (simp add: m3 m2)
  have D: "buildOrderSummaryText h data \<noteq> None" if "\<forall>k \<in> set textKeys. convertible (get data k)"
    using that by (rule text_builds)
  have E: "main3 (h\<lparr>GITHUB_RUN_NUMBER := r, beijingHour := hr\<rparr>) json = main3 h json"
    by (simp only: m3 text_cadence_free)
  have F: "main2 (h\<lparr>GITHUB_RUN_NUMBER := r, beijingHour := hr\<rparr>) json = main2 h json"
    by (simp only: m2 text_cadence_free)
  show ?thesis
    using A B C D E F by blast
qed

text \<open>The summary text of the scenario record at ten o'clock, and its being sent with
  the VIN in the subject at run number 1, which is a multiple of neither period.\<close>

lemma scenario_text:
  "buildOrderSummaryText (hostWith r 10) scenarioRecord
     = Some (join [0x0A]
         [label_requestTime @ lit '': 2025/1/1 10:00:00'',
          lit ''VIN: LSJA1234567890'',
          label_orderNo @ lit '': O123'',
          label_businessOrderNo @ lit '': --'',
          label_orderDate @ lit '': --'',
          label_payDate @ lit '': --'',
          label_buyerName @ lit '': --'',
          label_buyerTel @ lit '': --'',
          label_buyerIdNo @ lit '': --'',
          label_city @ lit '': --'',
          label_dealer @ lit '': --'',
          label_model @ lit '': --'',
          label_version @ lit '': --'',
          label_color @ lit '': -- / --'',
          label_retailPrice @ lit '': '' @ [yen] @ lit ''199,999.00''])"
  by code_simp

theorem vin_notice_has_priority_witness:
  "main3 (hostWith (Some ''1'') 10) (JObj [(lit ''data'', scenarioRecord)])
     = Some (Send (Mail (subject_vinNotice @ lit ''LSJA1234567890'')
          (join [0x0A]
             [label_requestTime @ lit '': 2025/1/1 10:00:00'',
              lit ''VIN: LSJA1234567890'',
              label_orderNo @ lit '': O123'',
              label_businessOrderNo @ lit '': --'',
              label_orderDate @ lit '': --'',
              label_payDate @ lit '': --'',
              label_buyerName @ lit '': --'',
              label_buyerTel @ lit '': --'',
              label_buyerIdNo @ lit '': --'',
              label_city @ lit '': --'',
              label_dealer @ lit '': --'',
              label_model @ lit '': --'',
              label_version @ lit '': --'',
              label_color @ lit '': -- / --'',
              label_retailPrice @ lit '': '' @ [yen] @ lit ''199,999.00''])))
   \<and> main2 (hostWith (Some ''1'') 10) (JObj [(lit ''data'', scenarioRecord)])
     = main3 (hostWith (Some ''1'') 10) (JObj [(lit ''data'', scenarioRecord)])"
proof -
  have d: "scenarioRecord
             = orElse (get (JObj [(lit ''data'', scenarioRecord)]) ''data'')
                 (JObj [(lit ''data'', scenarioRecord)])"
    by (simp add: orElse_def scenarioRecord_def)
  have v: "ToBoolean (get scenarioRecord ''vehicleVin'')"
    and s: "get scenarioRecord ''vehicleVin'' = JStr (lit ''LSJA1234567890'')"
    by (simp_all add: scenarioRecord_def lit_def)
  show ?thesis
    using vin_notice_has_priority [OF d v, THEN conjunct2, THEN conjunct1, rule_format,
            OF conjI, OF scenario_text s, of "Some ''1''"]
    by simp
qed

text \<open>
  The claim as the specification words it sends the notice for every record with a VIN. A
  VIN that is the object \<open>{"toString": 1}\<close> is truthy, so the record has a VIN, but the
  text cannot show it: both scripts throw while building the text and send nothing.
\<close>

theorem vin_notice_has_priority_counterexample:
  "ToBoolean (get (JObj [(lit ''vehicleVin'', unconvertible)]) ''vehicleVin'')
   \<and> main3 (hostWith (Some ''3'') 9) (JObj [(lit ''data'', JObj [(lit ''vehicleVin'', unconvertible)])])
       = None
   \<and> main2 (hostWith (Some ''2'') 9) (JObj [(lit ''data'', JObj [(lit ''vehicleVin'', unconvertible)])])
       = None"
  by code_simp

subsection \<open>The reminder cadence\<close>

lemma runNum_cases:
  "GITHUB_RUN_NUMBER h = None \<Longrightarrow> runNum h = Some NaN"
  "GITHUB_RUN_NUMBER h = Some [] \<Longrightarrow> runNum h = Some NaN"
  "GITHUB_RUN_NUMBER h = Some s \<Longrightarrow> s \<noteq> [] \<Longrightarrow> runNum h = Some (stringToNumber s)"
  by (simp_all add: runNum_def envValue_def)

lemma runNum_total: "runNum h \<noteq> None"
  by (auto simp: runNum_def envValue_def split: option.splits)

lemma stringToNumber_empty: "stringToNumber [] = Fin 0"
  by (simp add: stringToNumber_def parseLiteral_def trim_def toDouble_def roundToDouble_def)

lemma cycle_counter:
  assumes "runNum h = Some (Fin r)" and "0 < r"
  shows "shouldSendSummaryByCycle h = Some (\<exists>k::int. r = 3 * of_int k)"
  using assms strictEq_jsRem_Fin [of 3 r] by (simp add: shouldSendSummaryByCycle_def)

lemma cycle_hour:
  assumes "runNum h = Some n" and "n = NaN \<or> \<not> greater n (Fin 0)"
  shows "shouldSendSummaryByCycle h
           = map_option (\<lambda>hour. strictEq (jsRem hour (Fin 3)) (Fin 0)) (getBeijingHour h)"
proof -
  have c: "(if n \<noteq> NaN \<and> greater n (Fin 0) then a else b) = b" for a b :: "bool option"
    using assms(2) by auto
  show ?thesis
    by (simp only: shouldSendSummaryByCycle_def assms(1) bind.bind_lunit c bind_Some_map)
qed

lemma cycle_hour_never:
  assumes "runNum h = Some n" and "n = NaN \<or> \<not> greater n (Fin 0)"
  shows "shouldSendSummaryByCycle h = Some False"
  by (simp add: cycle_hour [OF assms] getBeijingHour_NaN)

lemma shouldSendSummaryByCycle_total: "shouldSendSummaryByCycle h \<noteq> None"
proof -
  obtain n where n: "runNum h = Some n" using runNum_total [of h] by blast
  show ?thesis
    by (auto simp: shouldSendSummaryByCycle_def n getBeijingHour_NaN)
qed

lemma main3_no_vin:
  assumes "\<not> ToBoolean (get (orElse (get json ''data'') json) ''vehicleVin'')"
      and "ToBoolean json"
      and "buildOrderSummaryText h (orElse (get json ''data'') json) = Some t"
  shows "main3 h json =
           map_option (\<lambda>cycle. if cycle then Send (Mail subject_progress t) else Skip)
             (shouldSendSummaryByCycle h)"
  using assms
  by (cases "shouldSendSummaryByCycle h") (simp_all add: main3_def fetchOrderJson_def Let_def)

lemma main2_no_vin:
  assumes "\<not> ToBoolean (get (orElse (get json ''data'') json) ''vehicleVin'')"
      and "ToBoolean json"
      and "buildOrderSummaryText h (orElse (get json ''data'') json) = Some t"
  shows "main2 h json =
           map_option (\<lambda>n. if strictEq (jsRem n (Fin 2)) (Fin 0)
                           then Send (Mail subject_progress t) else Skip)
             (runNumber h)"
  using assms
  by (cases "runNumber h") (simp_all add: main2_def fetchOrderJson_def Let_def)

lemma number_dashes: "stringToNumber (lit ''--'') = NaN"
  by code_simp

lemma formatCurrency_dashes: "formatCurrency (JStr (lit ''--'')) = Some (lit ''--'')"
  by (simp add: formatCurrency_def number_dashes)

lemma placeholder_text:
  "buildOrderSummaryText (hostWith r hr) (JObj []) = Some (placeholderText hr)"
proof -
  have fc: "formatCurrency (pick [get (JObj []) ''retailPrice'', get (JObj []) ''price''])
              = Some (lit ''--'')"
    by (simp add: formatCurrency_dashes)
  show ?thesis
    unfolding buildOrderSummaryText_def parts_def Let_def fc
    by (simp add: hostWith_def placeholderText_def line_def nullish_def formatRequestTime_def
        cityText_def colorText_def orElse_def trim_def lit_def isWhiteSpace_def)
qed

text \<open>
  Claim C2 against the code. Without a VIN, and with the summary text built, the hourly
  script decides by \<open>shouldSendSummaryByCycle\<close>. A run number that converts to a positive
  integer \<open>n\<close> sends the reminder exactly when \<open>n mod 3 = 0\<close>, and the decimal text of
  every positive integer below \<open>2 ^ 53\<close> converts to that integer: this part of the claim
  holds. The hour of day does not: the text the formatter gives for the hour ends with the
  hour character, so \<open>getBeijingHour\<close> returns \<open>NaN\<close> whatever the hour is, and with no
  run number (or an empty one) the script sends nothing at any hour, also at hour 9. A
  run number that converts to a positive number that is no integer is taken as the cadence
  index too and sends nothing.
\<close>

theorem reminder_cadence:
  assumes "data = orElse (get json ''data'') json"
      and "\<not> ToBoolean (get data ''vehicleVin'')"
      and "ToBoolean json"
      and "buildOrderSummaryText h data = Some t"
  shows "(\<forall>s n. GITHUB_RUN_NUMBER h = Some s \<and> stringToNumber s = Fin (of_int n) \<and> 0 < n \<longrightarrow>
            main3 h json = Some (if n mod 3 = 0 then Send (Mail subject_progress t) else Skip))
       \<and> (\<forall>n. 0 < n \<and> n < 2 ^ 53 \<longrightarrow> stringToNumber (decimal n) = Fin (of_int n))
       \<and> getBeijingHour h = Some NaN
       \<and> (GITHUB_RUN_NUMBER h = None \<or> GITHUB_RUN_NUMBER h = Some [] \<longrightarrow>
            main3 h json = Some Skip)
       \<and> (\<forall>s r. GITHUB_RUN_NUMBER h = Some s \<and> stringToNumber s = Fin r \<and> 0 < r \<and> r \<notin> \<int> \<longrightarrow>
            main3 h json = Some Skip)"
proof -
  have m: "main3 h json =
             map_option (\<lambda>cycle. if cycle then Send (Mail subject_progress t) else Skip)
               (shouldSendSummaryByCycle h)"
    using assms by (intro main3_no_vin) simp_all
  have A: "main3 h json = Some (if n mod 3 = 0 then Send (Mail subject_progress t) else Skip)"
    if a: "GITHUB_RUN_NUMBER h = Some s \<and> stringToNumber s = Fin (of_int n) \<and> 0 < n" for s n
  proof -
    have "s \<noteq> []" using a stringToNumber_empty by auto
    then have "runNum h = Some (Fin (of_int n))" using a by (simp add: runNum_cases)
    then have "shouldSendSummaryByCycle h = Some (\<exists>k::int. (of_int n :: rat) = 3 * of_int k)"
      using a by (intro cycle_counter) simp_all
    then have "shouldSendSummaryByCycle h = Some (n mod 3 = 0)"
      using multiple_of_int [of 3 n] by simp
    then show ?thesis by (simp add: m)
  qed
  have B: "stringToNumber (decimal n) = Fin (of_int n)" if "0 < n \<and> n < 2 ^ 53" for n
    using that by (simp add: stringToNumber_decimal)
  have C: "getBeijingHour h = Some NaN"
    by (rule getBeijingHour_NaN)
  have D: "main3 h json = Some Skip"
    if "GITHUB_RUN_NUMBER h = None \<or> GITHUB_RUN_NUMBER h = Some []"
  proof -
    have "runNum h = Some NaN" using that by (auto simp: runNum_cases)
    then have "shouldSendSummaryByCycle h = Some False"
      by (rule cycle_hour_never) simp
    then show ?thesis by (simp add: m)
  qed
  have E: "main3 h json = Some Skip"
    if a: "GITHUB_RUN_NUMBER h = Some s \<and> stringToNumber s = Fin r \<and> 0 < r \<and> r \<notin> \<int>" for s r
  proof -
    have "s \<noteq> []" using a stringToNumber_empty by auto
    then have "runNum h = Some (Fin r)" using a by (simp add: runNum_cases)
    then have c: "shouldSendSummaryByCycle h = Some (\<exists>k::int. r = 3 * of_int k)"
      using a by (intro cycle_counter) simp_all
    have "\<not> (\<exists>k::int. r = 3 * of_int k)"
    proof
      assume "\<exists>k::int. r = 3 * of_int k"
      then obtain k :: int where "r = 3 * of_int k" by blast
      then have "r = of_int (3 * k)" by simp
      then have "r \<in> \<int>" by (simp only: Ints_of_int)
      with a show False by blast
    qed
    with c show ?thesis by (simp add: m)
  qed
  show ?thesis
    using A B C D E by blast
qed

text \<open>Run number 3 sends and run number 4 does not; with no run number the script sends
  nothing at hour 9, where the claim sends, and nothing at hour 10.\<close>

theorem reminder_cadence_witness:
  "main3 (hostWith (Some ''3'') 10) (JObj [])
     = Some (Send (Mail subject_progress (placeholderText 10)))
   \<and> main3 (hostWith (Some ''4'') 9) (JObj []) = Some Skip
   \<and> hourText (hostWith None 9) = lit ''09'' @ [0x65F6]
   \<and> getBeijingHour (hostWith None 9) = Some NaN
   \<and> main3 (hostWith None 9) (JObj []) = Some Skip
   \<and> main3 (hostWith None 10) (JObj []) = Some Skip"
proof -
  have d: "JObj [] = orElse (get (JObj []) ''data'') (JObj [])"
    by (simp add: orElse_def)
  have nv: "\<not> ToBoolean (get (JObj []) ''vehicleVin'')" and tr: "ToBoolean (JObj [])"
    by simp_all
  note rc = reminder_cadence [OF d nv tr placeholder_text [of None 9]]
  note rc3 = reminder_cadence [OF d nv tr placeholder_text [of "Some ''3''" 10]]
  note rc4 = reminder_cadence [OF d nv tr placeholder_text [of "Some ''4''" 9]]
  note rc10 = reminder_cadence [OF d nv tr placeholder_text [of None 10]]
  have n3: "stringToNumber (lit ''3'') = Fin (of_int 3)"
    using rc [THEN conjunct2, THEN conjunct1, rule_format, of 3]
    by (simp add: decimal_def intDigits.simps digitChar_def lit_def)
  have n4: "stringToNumber (lit ''4'') = Fin (of_int 4)"
    using rc [THEN conjunct2, THEN conjunct1, rule_format, of 4]
    by (simp add: decimal_def intDigits.simps digitChar_def lit_def)
  have r3: "main3 (hostWith (Some ''3'') 10) (JObj [])
              = Some (Send (Mail subject_progress (placeholderText 10)))"
    using rc3 [
               THEN conjunct1, rule_format, of "lit ''3''" 3] n3
    by (simp add: hostWith_def)
  have r4: "main3 (hostWith (Some ''4'') 9) (JObj []) = Some Skip"
    using rc4 [
               THEN conjunct1, rule_format, of "lit ''4''" 4] n4
    by (simp add: hostWith_def)
  have h9: "getBeijingHour (hostWith None 9) = Some NaN"
    by (rule rc [THEN conjunct2, THEN conjunct2, THEN conjunct1])
  have s9: "main3 (hostWith None 9) (JObj []) = Some Skip"
    using rc [
               THEN conjunct2, THEN conjunct2, THEN conjunct2, THEN conjunct1]
    by (simp add: hostWith_def)
  have s10: "main3 (hostWith None 10) (JObj []) = Some Skip"
    using rc10 [
               THEN conjunct2, THEN conjunct2, THEN conjunct2, THEN conjunct1]
    by (simp add: hostWith_def)
  have t9: "hourText (hostWith None 9) = lit ''09'' @ [0x65F6]"
    by (simp add: hourText_def hostWith_def digitChar_def lit_def)
  show ?thesis
    using r3 r4 h9 s9 s10 t9 by blast
qed

lemma runNumber_cases:
  "GITHUB_RUN_NUMBER h = None \<Longrightarrow> runNumber h = Some (Fin 0)"
  "GITHUB_RUN_NUMBER h = Some [] \<Longrightarrow> runNumber h = Some (Fin 0)"
  "GITHUB_RUN_NUMBER h = Some s \<Longrightarrow> s \<noteq> [] \<Longrightarrow>
     runNumber h = Some (if stringToNumber s = NaN \<or> stringToNumber s = NegZero then Fin 0
                         else stringToNumber s)"
  by (auto simp: runNumber_def envValue_def orElse_def)

lemma even_multiple:
  "strictEq (jsRem (Fin (of_int n)) (Fin 2)) (Fin 0) \<longleftrightarrow> n mod 2 = 0"
proof -
  have "strictEq (jsRem (Fin (of_int n)) (Fin 2)) (Fin 0)
          \<longleftrightarrow> (\<exists>k::int. (of_int n :: rat) = 2 * of_int k)"
    by (rule strictEq_jsRem_Fin) simp
  also have "\<dots> \<longleftrightarrow> n mod 2 = 0"
    using multiple_of_int [of 2 n] by simp
  finally show ?thesis .
qed

lemma text_hour_free:
  "buildOrderSummaryText (h\<lparr>beijingHour := hr\<rparr>) data = buildOrderSummaryText h data"
  by (simp add: buildOrderSummaryText_def parts_def formatRequestTime_def
      script_safeJsonParse_def)

lemma main2_hour_free: "main2 (h\<lparr>beijingHour := hr\<rparr>) json = main2 h json"
  by (simp add: main2_def runNumber_def text_hour_free)

lemma main3_throws:
  "main3 h json = None \<longleftrightarrow>
     \<not> ToBoolean json \<or> buildOrderSummaryText h (orElse (get json ''data'') json) = None"
proof (cases "ToBoolean json \<and> buildOrderSummaryText h (orElse (get json ''data'') json) \<noteq> None")
  case False
  then show ?thesis by (auto simp: main3_def fetchOrderJson_def Let_def)
next
  case True
  then obtain t where t: "buildOrderSummaryText h (orElse (get json ''data'') json) = Some t"
    by blast
  obtain c where c: "shouldSendSummaryByCycle h = Some c"
    using shouldSendSummaryByCycle_total [of h] by blast
  obtain v where v: "ToString (get (orElse (get json ''data'') json) ''vehicleVin'') = Some v"
    using text_converts_vin [OF t] by (auto simp: convertible_def)
  show ?thesis
    using True by (simp add: main3_def fetchOrderJson_def Let_def t c v)
qed

lemma main2_throws:
  "main2 h json = None \<longleftrightarrow>
     \<not> ToBoolean json \<or> buildOrderSummaryText h (orElse (get json ''data'') json) = None"
proof (cases "ToBoolean json \<and> buildOrderSummaryText h (orElse (get json ''data'') json) \<noteq> None")
  case False
  then show ?thesis by (auto simp: main2_def fetchOrderJson_def Let_def bind_eq_None_conv)
next
  case True
  then obtain t where t: "buildOrderSummaryText h (orElse (get json ''data'') json) = Some t"
    by blast
  obtain n where n: "runNumber h = Some n"
    using runNumber_total [of h] by blast
  obtain v where v: "ToString (get (orElse (get json ''data'') json) ''vehicleVin'') = Some v"
    using text_converts_vin [OF t] by (auto simp: convertible_def)
  show ?thesis
    using True by (simp add: main2_def fetchOrderJson_def Let_def t n v)
qed

text \<open>
  Claim C3, as the code has it. The cadence arithmetic of both scripts never throws. The
  \<open>main\<close> function around it, given the body of a successful response, throws exactly when
  the body is falsy or the summary text cannot be built. In the hourly script a run number that is not a number, zero or
  negative hands the decision to the hour branch, \<open>getBeijingHour() % 3 === 0\<close>, as an
  unset run number does. The three-hourly script has no hour branch: its decision does not
  depend on the hour; a run number that is not a number or is zero counts as 0 and the
  reminder is sent, and a negative run number is used as it converts, so the reminder is
  sent exactly when that number is an even integer.
\<close>

theorem malformed_counter:
  assumes "data = orElse (get json ''data'') json"
  shows "shouldSendSummaryByCycle h \<noteq> None \<and> runNumber h \<noteq> None
       \<and> (main3 h json = None \<longleftrightarrow> \<not> ToBoolean json \<or> buildOrderSummaryText h data = None)
       \<and> (main2 h json = None \<longleftrightarrow> \<not> ToBoolean json \<or> buildOrderSummaryText h data = None)
       \<and> (\<forall>s. GITHUB_RUN_NUMBER h = Some s
             \<and> (stringToNumber s = NaN \<or> stringToNumber s = Fin 0 \<or> stringToNumber s = NegZero
                \<or> stringToNumber s = NegInf \<or> (\<exists>q<0. stringToNumber s = Fin q)) \<longrightarrow>
            shouldSendSummaryByCycle h
              = map_option (\<lambda>hour. strictEq (jsRem hour (Fin 3)) (Fin 0)) (getBeijingHour h)
          \<and> shouldSendSummaryByCycle h
              = shouldSendSummaryByCycle (h\<lparr>GITHUB_RUN_NUMBER := None\<rparr>))
       \<and> (\<forall>t. \<not> ToBoolean (get data ''vehicleVin'') \<and> ToBoolean json
               \<and> buildOrderSummaryText h data = Some t \<longrightarrow>
            (\<forall>s. GITHUB_RUN_NUMBER h = Some s
                  \<and> (stringToNumber s = NaN \<or> stringToNumber s = Fin 0
                     \<or> stringToNumber s = NegZero) \<longrightarrow>
               main2 h json = Some (Send (Mail subject_progress t)))
          \<and> (\<forall>s n. GITHUB_RUN_NUMBER h = Some s \<and> stringToNumber s = Fin (of_int n) \<and> n < 0 \<longrightarrow>
               main2 h json
                 = Some (if n mod 2 = 0 then Send (Mail subject_progress t) else Skip))
          \<and> (\<forall>s r. GITHUB_RUN_NUMBER h = Some s \<and> stringToNumber s = Fin r \<and> r < 0 \<and> r \<notin> \<int> \<longrightarrow>
               main2 h json = Some Skip)
          \<and> (\<forall>s. GITHUB_RUN_NUMBER h = Some s \<and> stringToNumber s = NegInf \<longrightarrow>
               main2 h json = Some Skip))
       \<and> main2 (h\<lparr>beijingHour := hr\<rparr>) json = main2 h json"
proof -
  have A: "shouldSendSummaryByCycle h \<noteq> None \<and> runNumber h \<noteq> None"
    by (simp add: shouldSendSummaryByCycle_total runNumber_total del: not_None_eq)
  have B: "main3 h json = None \<longleftrightarrow> \<not> ToBoolean json \<or> buildOrderSummaryText h data = None"
    unfolding assms by (rule main3_throws)
  have C: "main2 h json = None \<longleftrightarrow> \<not> ToBoolean json \<or> buildOrderSummaryText h data = None"
    unfolding assms by (rule main2_throws)
  have D: "shouldSendSummaryByCycle h
             = map_option (\<lambda>hour. strictEq (jsRem hour (Fin 3)) (Fin 0)) (getBeijingHour h)
         \<and> shouldSendSummaryByCycle h
             = shouldSendSummaryByCycle (h\<lparr>GITHUB_RUN_NUMBER := None\<rparr>)"
    if a: "GITHUB_RUN_NUMBER h = Some s
           \<and> (stringToNumber s = NaN \<or> stringToNumber s = Fin 0 \<or> stringToNumber s = NegZero
              \<or> stringToNumber s = NegInf \<or> (\<exists>q<0. stringToNumber s = Fin q))" for s
  proof -
    obtain n where n: "runNum h = Some n" and bad: "n = NaN \<or> \<not> greater n (Fin 0)"
    proof (cases "s = []")
      case True
      with a have "runNum h = Some NaN" by (simp add: runNum_cases)
      then show ?thesis using that by blast
    next
      case False
      with a have "runNum h = Some (stringToNumber s)" by (simp add: runNum_cases)
      moreover have "stringToNumber s = NaN \<or> \<not> greater (stringToNumber s) (Fin 0)"
        using a by auto
      ultimately show ?thesis using that by blast
    qed
    have h1: "shouldSendSummaryByCycle h
                = map_option (\<lambda>hour. strictEq (jsRem hour (Fin 3)) (Fin 0)) (getBeijingHour h)"
      using n bad by (rule cycle_hour)
    have "runNum (h\<lparr>GITHUB_RUN_NUMBER := None\<rparr>) = Some NaN"
      by (simp add: runNum_cases)
    then have "shouldSendSummaryByCycle (h\<lparr>GITHUB_RUN_NUMBER := None\<rparr>)
                 = map_option (\<lambda>hour. strictEq (jsRem hour (Fin 3)) (Fin 0))
                     (getBeijingHour (h\<lparr>GITHUB_RUN_NUMBER := None\<rparr>))"
      by (rule cycle_hour) simp
    then have h2: "shouldSendSummaryByCycle (h\<lparr>GITHUB_RUN_NUMBER := None\<rparr>)
                     = map_option (\<lambda>hour. strictEq (jsRem hour (Fin 3)) (Fin 0))
                         (getBeijingHour h)"
      by (simp add: getBeijingHour_def hourText_def)
    show ?thesis using h1 h2 by simp
  qed
  have E: "(\<forall>s. GITHUB_RUN_NUMBER h = Some s
                  \<and> (stringToNumber s = NaN \<or> stringToNumber s = Fin 0
                     \<or> stringToNumber s = NegZero) \<longrightarrow>
               main2 h json = Some (Send (Mail subject_progress t)))
          \<and> (\<forall>s n. GITHUB_RUN_NUMBER h = Some s \<and> stringToNumber s = Fin (of_int n) \<and> n < 0 \<longrightarrow>
               main2 h json
                 = Some (if n mod 2 = 0 then Send (Mail subject_progress t) else Skip))
          \<and> (\<forall>s r. GITHUB_RUN_NUMBER h = Some s \<and> stringToNumber s = Fin r \<and> r < 0 \<and> r \<notin> \<int> \<longrightarrow>
               main2 h json = Some Skip)
          \<and> (\<forall>s. GITHUB_RUN_NUMBER h = Some s \<and> stringToNumber s = NegInf \<longrightarrow>
               main2 h json = Some Skip)"
    if b: "\<not> ToBoolean (get data ''vehicleVin'') \<and> ToBoolean json
           \<and> buildOrderSummaryText h data = Some t" for t
  proof -
    have m: "main2 h json =
               map_option (\<lambda>n. if strictEq (jsRem n (Fin 2)) (Fin 0)
                               then Send (Mail subject_progress t) else Skip)
                 (runNumber h)"
      using b assms by (intro main2_no_vin) simp_all
    have E1: "main2 h json = Some (Send (Mail subject_progress t))"
      if a: "GITHUB_RUN_NUMBER h = Some s
             \<and> (stringToNumber s = NaN \<or> stringToNumber s = Fin 0 \<or> stringToNumber s = NegZero)"
      for s
    proof -
      have "runNumber h = Some (Fin 0)"
      proof (cases "s = []")
        case True
        with a show ?thesis by (simp add: runNumber_cases)
      next
        case False
        with a show ?thesis by (auto simp: runNumber_cases)
      qed
      then show ?thesis by (simp add: m truncRat_def)
    qed
    have E2: "main2 h json
                = Some (if n mod 2 = 0 then Send (Mail subject_progress t) else Skip)"
      if a: "GITHUB_RUN_NUMBER h = Some s \<and> stringToNumber s = Fin (of_int n) \<and> n < 0" for s n
    proof -
      have "s \<noteq> []" using a stringToNumber_empty by auto
      with a have "runNumber h = Some (Fin (of_int n))" by (simp add: runNumber_cases)
      then show ?thesis by (simp add: m even_multiple del: jsRem.simps)
    qed
    have E3: "main2 h json = Some Skip"
      if a: "GITHUB_RUN_NUMBER h = Some s \<and> stringToNumber s = Fin r \<and> r < 0 \<and> r \<notin> \<int>" for s r
    proof -
      have "s \<noteq> []" using a stringToNumber_empty by auto
      with a have rn: "runNumber h = Some (Fin r)" by (simp add: runNumber_cases)
      have "\<not> (\<exists>k::int. r = 2 * of_int k)"
      proof
        assume "\<exists>k::int. r = 2 * of_int k"
        then obtain k :: int where "r = 2 * of_int k" by blast
        then have "r = of_int (2 * k)" by simp
        then have "r \<in> \<int>" by (simp only: Ints_of_int)
        with a show False by blast
      qed
      then have "\<not> strictEq (jsRem (Fin r) (Fin 2)) (Fin 0)"
        using strictEq_jsRem_Fin [of 2 r] by simp
      then show ?thesis by (simp add: m rn del: jsRem.simps)
    qed
    have E4: "main2 h json = Some Skip"
      if a: "GITHUB_RUN_NUMBER h = Some s \<and> stringToNumber s = NegInf" for s
    proof -
      have "s \<noteq> []" using a stringToNumber_empty by auto
      with a have "runNumber h = Some NegInf" by (simp add: runNumber_cases)
      then show ?thesis by (simp add: m)
    qed
    show ?thesis using E1 E2 E3 E4 by blast
  qed
  have F: "main2 (h\<lparr>beijingHour := hr\<rparr>) json = main2 h json"
    by (rule main2_hour_free)
  show ?thesis
    using A B C D E F by blast
qed

text \<open>The run number \<open>abc\<close> leaves the hourly script with the decision of an unset run
  number and makes the three-hourly script send; the run numbers \<open>-3\<close> and \<open>-4\<close> are used
  as they are, and \<open>-9007199254740993\<close> as the even double next to it; a record with a field
  that cannot be shown, and a body \<open>null\<close>, make the scripts throw.\<close>

theorem malformed_counter_witness:
  "shouldSendSummaryByCycle (hostWith (Some ''abc'') 9)
     = shouldSendSummaryByCycle (hostWith None 9)
   \<and> main2 (hostWith (Some ''abc'') 9) (JObj [])
     = Some (Send (Mail subject_progress (placeholderText 9)))
   \<and> main2 (hostWith (Some ''-3'') 10) (JObj []) = Some Skip
   \<and> main2 (hostWith (Some ''-4'') 10) (JObj [])
     = Some (Send (Mail subject_progress (placeholderText 10)))
   \<and> main2 (hostWith (Some ''-9007199254740993'') 10) (JObj [])
     = Some (Send (Mail subject_progress (placeholderText 10)))
   \<and> main3 (hostWith (Some ''0'') 9) (JObj [(lit ''orderNo'', unconvertible)]) = None
   \<and> main2 (hostWith (Some ''abc'') 9) JNull = None"
proof -
  have d: "JObj [] = orElse (get (JObj []) ''data'') (JObj [])"
    by (simp add: orElse_def)
  have pre: "\<not> ToBoolean (get (JObj []) ''vehicleVin'') \<and> ToBoolean (JObj [])
             \<and> buildOrderSummaryText (hostWith r hr) (JObj []) = Some (placeholderText hr)"
    for r hr
    by (simp add: placeholder_text)
  have abc: "stringToNumber (lit ''abc'') = NaN"
    and m3: "stringToNumber (lit ''-3'') = Fin (of_int (- 3))"
    and m4: "stringToNumber (lit ''-4'') = Fin (of_int (- 4))"
    and big: "stringToNumber (lit ''-9007199254740993'') = Fin (of_int (- 9007199254740992))"
    by code_simp+
  have a: "shouldSendSummaryByCycle (hostWith (Some ''abc'') 9)
             = shouldSendSummaryByCycle (hostWith None 9)"
    using malformed_counter [OF d, where h = "hostWith (Some ''abc'') 9",
            THEN conjunct2, THEN conjunct2, THEN conjunct2, THEN conjunct2, THEN conjunct1,
            rule_format, of "lit ''abc''", THEN conjunct2] abc
    by (simp add: hostWith_def)
  have b: "main2 (hostWith (Some ''abc'') 9) (JObj [])
             = Some (Send (Mail subject_progress (placeholderText 9)))"
    using malformed_counter [OF d, where h = "hostWith (Some ''abc'') 9",
            THEN conjunct2, THEN conjunct2, THEN conjunct2, THEN conjunct2, THEN conjunct2,
            THEN conjunct1, rule_format, OF pre, THEN conjunct1, rule_format,
            of "lit ''abc''"] abc
    by (simp add: hostWith_def)
  have c: "main2 (hostWith (Some ''-3'') 10) (JObj []) = Some Skip"
    using malformed_counter [OF d, where h = "hostWith (Some ''-3'') 10",
            THEN conjunct2, THEN conjunct2, THEN conjunct2, THEN conjunct2, THEN conjunct2,
            THEN conjunct1, rule_format, OF pre, THEN conjunct2, THEN conjunct1, rule_format,
            of "lit ''-3''" "- 3"] m3
    by (simp add: hostWith_def)
  have e: "main2 (hostWith (Some ''-4'') 10) (JObj [])
             = Some (Send (Mail subject_progress (placeholderText 10)))"
    using malformed_counter [OF d, where h = "hostWith (Some ''-4'') 10",
            THEN conjunct2, THEN conjunct2, THEN conjunct2, THEN conjunct2, THEN conjunct2,
            THEN conjunct1, rule_format, OF pre, THEN conjunct2, THEN conjunct1, rule_format,
            of "lit ''-4''" "- 4"] m4
    by (simp add: hostWith_def)
  have e2: "main2 (hostWith (Some ''-9007199254740993'') 10) (JObj [])
              = Some (Send (Mail subject_progress (placeholderText 10)))"
    using malformed_counter [OF d, where h = "hostWith (Some ''-9007199254740993'') 10",
            THEN conjunct2, THEN conjunct2, THEN conjunct2, THEN conjunct2, THEN conjunct2,
            THEN conjunct1, rule_format, OF pre, THEN conjunct2, THEN conjunct1, rule_format,
            of "lit ''-9007199254740993''" "- 9007199254740992"] big
    by (simp add: hostWith_def)
  have d2: "JObj [(lit ''orderNo'', unconvertible)]
              = orElse (get (JObj [(lit ''orderNo'', unconvertible)]) ''data'')
                  (JObj [(lit ''orderNo'', unconvertible)])"
    by (simp add: orElse_def lit_def)
  have nt: "buildOrderSummaryText (hostWith (Some ''0'') 9)
              (JObj [(lit ''orderNo'', unconvertible)]) = None"
    by code_simp
  have f: "main3 (hostWith (Some ''0'') 9) (JObj [(lit ''orderNo'', unconvertible)]) = None"
    using malformed_counter [OF d2, where h = "hostWith (Some ''0'') 9",
            THEN conjunct2, THEN conjunct2, THEN conjunct1] nt
    by simp
  have d3: "JNull = orElse (get JNull ''data'') JNull"
    by (simp add: orElse_def)
  have g: "main2 (hostWith (Some ''abc'') 9) JNull = None"
    using malformed_counter [OF d3, where h = "hostWith (Some ''abc'') 9",
            THEN conjunct2, THEN conjunct2, THEN conjunct2, THEN conjunct1]
    by simp
  show ?thesis
    using a b c e e2 f g by blast
qed

text \<open>
  The claim as the specification words it lets the three-hourly script fall back to the
  hour of day and lets no decision throw. With the run number \<open>abc\<close> at hour 9 the hour
  modulo 2 is 1, which would send nothing; the script sends the reminder. And on a record
  whose order number is \<open>{"toString": 1}\<close> the script throws.
\<close>

theorem malformed_counter_counterexample:
  "stringToNumber (lit ''abc'') = NaN
   \<and> beijingHour (hostWith (Some ''abc'') 9) mod 2 = 1
   \<and> main2 (hostWith (Some ''abc'') 9) (JObj [])
     = Some (Send (Mail subject_progress (placeholderText 9)))
   \<and> main2 (hostWith (Some ''abc'') 9) (JObj [(lit ''orderNo'', unconvertible)]) = None"
  by code_simp

section \<open>Currency formatting\<close>

lemma groupedRev_groupRev:
  "list_all isDigit ds \<Longrightarrow> ds \<noteq> [] \<Longrightarrow> groupedRev (groupRev ds)"
proof (induction ds rule: groupRev.induct)
  case (1 a b c d r)
  then show ?case by simp
qed simp_all

lemma roundHalfEven_nonneg: "0 \<le> x \<Longrightarrow> 0 \<le> roundHalfEven x"
  by (auto simp: roundHalfEven_def Let_def)

lemma pow10_pos: "0 < pow10 e"
  by (simp add: pow10_def)

lemma shortest_nonneg: "0 < q \<Longrightarrow> 0 \<le> fst (shortest fuel q n k)"
proof (induction fuel arbitrary: k)
  case 0
  then show ?case using pow10_pos [of "n - k"] by (simp add: roundHalfEven_nonneg)
next
  case (Suc fuel)
  have "0 \<le> roundHalfEven (q / pow10 (n - k))"
    using Suc.prems pow10_pos [of "n - k"] by (simp add: roundHalfEven_nonneg)
  then show ?case using Suc by (simp add: Let_def)
qed

lemma decimalValue_nonneg: "0 \<le> q \<Longrightarrow> 0 \<le> decimalValue q"
proof (cases "q = 0")
  case True
  then show ?thesis by (simp add: decimalValue_def)
next
  case False
  assume "0 \<le> q"
  with False have q: "0 < q" by simp
  obtain s e where se: "decimalOf q = (s, e)" by (cases "decimalOf q")
  then have "0 \<le> s"
    using shortest_nonneg [OF q, of 16 "floorLog10 q + 1" 1] by (simp add: decimalOf_def)
  then show ?thesis
    using False pow10_pos [of e] by (simp add: decimalValue_def se)
qed

text \<open>The shape of a number printed with two decimals: the sign, the grouped integer
  digits, the point and two digits.\<close>

lemma fixed2_shape:
  assumes "0 \<le> a"
  shows "\<exists>g d1 d2. fixed2 neg a = (if neg then lit ''-'' else []) @ g @ lit ''.'' @ [d1, d2]
           \<and> isGrouped g \<and> isDigit d1 \<and> isDigit d2"
proof -
  define cents where "cents = \<lfloor>a * 100 + 1 / 2\<rfloor>"
  define ip where "ip = cents div 100"
  define fp where "fp = cents mod 100"
  define ipd where "ipd = (if ip = 0 then [digitChar 0] else map digitChar (intDigits ip))"
  have c0: "0 \<le> cents" using assms by (simp add: cents_def)
  then have ip0: "0 \<le> ip" by (simp add: ip_def)
  have fp0: "0 \<le> fp" "fp < 100" by (simp_all add: fp_def)
  have d1: "isDigit (digitChar (fp div 10))"
    using fp0 by (intro isDigit_digitChar) auto
  have d2: "isDigit (digitChar (fp mod 10))"
    by (intro isDigit_digitChar) auto
  have dig: "list_all isDigit ipd"
    using intDigits_range [of _ ip]
    by (auto simp: ipd_def list_all_iff isDigit_digitChar)
  have ne: "ipd \<noteq> []"
    using ip0 by (auto simp: ipd_def intDigits_nonempty)
  have g: "isGrouped (rev (groupRev (rev ipd)))"
    unfolding isGrouped_def rev_rev_ident
    using dig ne by (intro groupedRev_groupRev) simp_all
  have "fixed2 neg a = (if neg then lit ''-'' else []) @ rev (groupRev (rev ipd)) @ lit ''.''
          @ [digitChar (fp div 10), digitChar (fp mod 10)]"
    by (simp add: fixed2_def Let_def cents_def ip_def fp_def ipd_def)
  with g d1 d2 show ?thesis by blast
qed

lemma toLocaleString_shape:
  assumes "isFinite n"
  shows "\<exists>g d1 d2. toLocaleString_zhCN_2 n
             = (if signBit n then lit ''-'' else []) @ g @ lit ''.'' @ [d1, d2]
           \<and> isGrouped g \<and> isDigit d1 \<and> isDigit d2"
proof (cases n)
  case (Fin r)
  have "0 \<le> decimalValue \<bar>r\<bar>" by (rule decimalValue_nonneg) simp
  from fixed2_shape [OF this, of "r < 0"] show ?thesis by (simp add: Fin)
next
  case NegZero
  from fixed2_shape [of 0 True] show ?thesis by (simp add: NegZero)
qed (use assms in simp_all)

lemma toString_1234_5: "numberToString (Fin 1234.5) = lit ''1234.5''"
  by code_simp

lemma number_abc: "stringToNumber (lit ''abc'') = NaN"
  by code_simp

text \<open>
  Claim C4, as the code has it. The \<open>formatCurrency\<close> of the route and of the mail scripts
  maps \<open>null\<close>, \<open>undefined\<close> and the empty string to \<open>"--"\<close>; maps an input that is, or
  converts to, a finite number to the yuan sign followed by the minus sign of a negative
  number, the integer digits grouped in threes by commas, a point and exactly two decimals
  (1234.5 gives 1,234.50 after the yuan sign); and returns a non-empty string that converts
  to no number as it is (\<open>"abc"\<close> stays \<open>"abc"\<close>). The \<open>formatCurrency\<close> of the page is
  another function: it maps \<open>null\<close> and \<open>undefined\<close> to \<open>"--"\<close> and a number to the yuan sign
  followed by the number as \<open>String\<close> prints it, so 1234.5 gives 1234.5 after the yuan sign.
\<close>

theorem formatCurrency_cases:
  "formatCurrency JNull = Some (lit ''--'')
   \<and> formatCurrency JUndefined = Some (lit ''--'')
   \<and> formatCurrency (JStr []) = Some (lit ''--'')
   \<and> (\<forall>amount n. amount \<noteq> JNull \<and> amount \<noteq> JUndefined \<and> amount \<noteq> JStr []
          \<and> ToNumber amount = Some n \<and> isFinite n \<longrightarrow>
        (\<exists>g d1 d2. formatCurrency amount
             = Some (yen # (if signBit n then lit ''-'' else []) @ g @ lit ''.'' @ [d1, d2])
           \<and> isGrouped g \<and> isDigit d1 \<and> isDigit d2))
   \<and> formatCurrency (JNum (Fin 1234.5)) = Some (yen # lit ''1,234.50'')
   \<and> (\<forall>s. s \<noteq> [] \<and> stringToNumber s = NaN \<longrightarrow> formatCurrency (JStr s) = Some s)
   \<and> formatCurrency (JStr (lit ''abc'')) = Some (lit ''abc'')
   \<and> page_formatCurrency JNull = Some (lit ''--'')
   \<and> page_formatCurrency JUndefined = Some (lit ''--'')
   \<and> (\<forall>n. page_formatCurrency (JNum n) = Some (yen # numberToString n))
   \<and> page_formatCurrency (JNum (Fin 1234.5)) = Some (yen # lit ''1234.5'')"
proof -
  have A: "formatCurrency JNull = Some (lit ''--'')"
    and B: "formatCurrency JUndefined = Some (lit ''--'')"
    and C: "formatCurrency (JStr []) = Some (lit ''--'')"
    by (simp_all add: formatCurrency_def)
  have D: "\<exists>g d1 d2. formatCurrency amount
             = Some (yen # (if signBit n then lit ''-'' else []) @ g @ lit ''.'' @ [d1, d2])
           \<and> isGrouped g \<and> isDigit d1 \<and> isDigit d2"
    if a: "amount \<noteq> JNull \<and> amount \<noteq> JUndefined \<and> amount \<noteq> JStr []
           \<and> ToNumber amount = Some n \<and> isFinite n" for amount n
  proof -
    have "n \<noteq> NaN" using a by auto
    then have "formatCurrency amount = Some (yen # toLocaleString_zhCN_2 n)"
      using a by (simp add: formatCurrency_def)
    then show ?thesis
      using toLocaleString_shape [of n] a by auto
  qed
  have E: "formatCurrency (JNum (Fin 1234.5)) = Some (yen # lit ''1,234.50'')"
    by code_simp
  have F: "formatCurrency (JStr s) = Some s" if "s \<noteq> [] \<and> stringToNumber s = NaN" for s
    using that by (simp add: formatCurrency_def)
  have G: "formatCurrency (JStr (lit ''abc'')) = Some (lit ''abc'')"
    by (simp add: formatCurrency_def number_abc) (simp add: lit_def)
  have H: "page_formatCurrency JNull = Some (lit ''--'')"
    and I: "page_formatCurrency JUndefined = Some (lit ''--'')"
    and J: "page_formatCurrency (JNum m) = Some (yen # numberToString m)" for m
    by (simp_all add: page_formatCurrency_def)
  have K: "page_formatCurrency (JNum (Fin 1234.5)) = Some (yen # lit ''1234.5'')"
    by (simp only: J toString_1234_5)
  show ?thesis
    using A B C D E F G H I J K by blast
qed

lemma number_12abc: "stringToNumber (lit ''12abc'') = NaN"
  by code_simp

lemma number_12_5: "stringToNumber (lit ''12.5'') = Fin (25 / 2)"
  by code_simp

lemma locale_12_5: "toLocaleString_zhCN_2 (Fin (25 / 2)) = lit ''12.50''"
  by code_simp

text \<open>The numeric string \<open>12.5\<close> is formatted with two decimals, and the string \<open>12abc\<close>,
  which starts like a number, stays as it is. A string of digits beyond 53 bits is
  formatted as the double it converts to.\<close>

theorem formatCurrency_cases_witness:
  "formatCurrency (JStr (lit ''12.5'')) = Some (yen # lit ''12.50'')
   \<and> (\<exists>g d1 d2. formatCurrency (JStr (lit ''12.5'')) = Some (yen # g @ lit ''.'' @ [d1, d2])
        \<and> isGrouped g \<and> isDigit d1 \<and> isDigit d2)
   \<and> formatCurrency (JStr (lit ''12abc'')) = Some (lit ''12abc'')
   \<and> formatCurrency (JStr (lit ''9007199254740993''))
     = Some (yen # lit ''9,007,199,254,740,992.00'')"
proof -
  have n: "lit ''12.5'' \<noteq> []" "lit ''12abc'' \<noteq> []" by (simp_all add: lit_def)
  have a: "\<exists>g d1 d2. formatCurrency (JStr (lit ''12.5'')) = Some (yen # g @ lit ''.'' @ [d1, d2])
             \<and> isGrouped g \<and> isDigit d1 \<and> isDigit d2"
    using formatCurrency_cases [THEN conjunct2, THEN conjunct2, THEN conjunct2, THEN conjunct1,
            rule_format, of "JStr (lit ''12.5'')" "Fin (25 / 2)"] n
    by (simp add: number_12_5)
  have b: "formatCurrency (JStr (lit ''12abc'')) = Some (lit ''12abc'')"
    using formatCurrency_cases [THEN conjunct2, THEN conjunct2, THEN conjunct2, THEN conjunct2,
            THEN conjunct2, THEN conjunct1, rule_format, of "lit ''12abc''"] n
    by (simp add: number_12abc)
  have c: "formatCurrency (JStr (lit ''12.5'')) = Some (yen # lit ''12.50'')"
    using n by (simp add: formatCurrency_def number_12_5 locale_12_5
                  del: toLocaleString_zhCN_2.simps)
  have d: "formatCurrency (JStr (lit ''9007199254740993''))
             = Some (yen # lit ''9,007,199,254,740,992.00'')"
    by code_simp
  show ?thesis using a b c d by blast
qed

text \<open>
  The claim as the specification words it gives every \<open>formatCurrency\<close> grouping and two
  decimals for a numeric input. The page prints 1234.5 after the yuan sign as it is, and
  the route and the scripts print the number \<open>Infinity\<close>, which \<open>JSON.parse\<close> gives for a
  literal such as \<open>1e400\<close>, as the yuan sign and the infinity sign.
\<close>

theorem formatCurrency_cases_counterexample:
  "page_formatCurrency (JNum (Fin 1234.5)) = Some (yen # lit ''1234.5'')
   \<and> yen # lit ''1234.5'' \<noteq> yen # lit ''1,234.50''
   \<and> formatCurrency (JNum PosInf) = Some [yen, 0x221E]"
  by code_simp

section \<open>The normalizer\<close>

lemma pick_textual: "\<forall>v \<in> set vs. textual v \<Longrightarrow> isString (pick vs)"
proof (induction vs)
  case Nil
  then show ?case by simp
next
  case (Cons v vs)
  then show ?case by (cases v) (auto simp: textual_def)
qed

lemma nullish_defined: "nullish v (JStr s) \<noteq> JNull \<and> nullish v (JStr s) \<noteq> JUndefined"
  by (simp add: nullish_def)

lemma nullish_textual: "textual v \<Longrightarrow> isString (nullish v (JStr s))"
  by (cases v) (auto simp: textual_def nullish_def)

text \<open>What \<open>buildOrderSummary\<close> returns, when it returns.\<close>

lemma buildOrderSummary_Some:
  assumes "buildOrderSummary h data = Some S"
  obtains city color price configPrice where
    "cityText data = Some city" and "colorText data = Some color"
    and "formatCurrency (pick [get data ''retailPrice'', get data ''price'']) = Some price"
    and "formatCurrency
           (pick [get (sku_of h (get data ''skuDetail'')) ''configurationRetailPrice'',
                  get (get (sku_of h (get data ''skuDetail'')) ''materialConfig'') ''totalPrice''])
           = Some configPrice"
    and "S = \<lparr> requestTime = JStr (formatRequestTime h),
              orderNo = pick [get data ''orderNo'', get data ''orderSn''],
              businessOrderNo = pick [get data ''businessOrderNo'', get data ''businessOrderSn''],
              orderDate = pick [get data ''orderDate'', get data ''orderTime''],
              payDate = pick [get data ''payDate'', get data ''payTime''],
              buyerName = pick [get data ''buyerName'', get data ''realName''],
              buyerTel = pick [get data ''buyerTel'', get data ''mobile''],
              buyerIdNo = pick [get data ''buyerIdNo'', get data ''idNo''],
              cityName = pick [JStr city, get data ''cityName''],
              dealerName = pick [get data ''dealerFullName'', get data ''dealerName'',
                                 get data ''storeName''],
              vehicleModel = pick [get data ''vehicleModel'', get data ''carSeriesName''],
              vehicleVersion = pick [get data ''vehicleVersion'', get data ''carTypeName''],
              colorName = pick [JStr color, get data ''colorName''],
              retailPrice = JStr price,
              vehicleVin = nullish (get data ''vehicleVin'') (JStr (lit ''--'')),
              configurationFullName =
                pick [get (sku_of h (get data ''skuDetail'')) ''configurationFullName'',
                      get (get (sku_of h (get data ''skuDetail'')) ''materialConfig'') ''fullName''],
              configurationRetailPrice = JStr configPrice \<rparr>"
  using assms
  unfolding buildOrderSummary_def Let_def
  by (auto simp: bind_eq_Some_conv simp del: pick.simps)

lemma buildOrderSummary_returns:
  "buildOrderSummary h data \<noteq> None \<longleftrightarrow>
     convertible (get data ''buyerProvinceName'') \<and> convertible (get data ''buyerCityName'')
   \<and> convertible (get data ''exteriorColor'') \<and> convertible (get data ''interiorColor'')
   \<and> convertible (pick [get data ''retailPrice'', get data ''price''])
   \<and> convertible
        (pick [get (sku_of h (get data ''skuDetail'')) ''configurationRetailPrice'',
               get (get (sku_of h (get data ''skuDetail'')) ''materialConfig'') ''totalPrice''])"
  unfolding buildOrderSummary_def Let_def
  by (auto simp: bind_eq_None_conv cityText_eq_None colorText_eq_None formatCurrency_eq_None
           simp del: pick.simps not_None_eq)

lemma colorText_nonempty: "colorText data = Some color \<Longrightarrow> color \<noteq> []"
  by (auto simp: colorText_def bind_eq_Some_conv lit_def)

text \<open>
  Claim C5, as the code has it. \<open>buildOrderSummary\<close> returns exactly when the values its two
  template literals and its two calls of \<open>formatCurrency\<close> convert can be converted: the
  province, the city and the two colours of the record, the first qualifying price and the
  first qualifying configuration price. Every field of the summary it returns is neither
  \<open>null\<close> nor \<open>undefined\<close>. The request time, the colour and the two prices are always
  strings. Every other field is a string whenever the values under its own candidate keys
  are strings, \<open>null\<close> or missing; it is the candidate itself otherwise.
\<close>

theorem summary_fields_defined:
  assumes "sku = sku_of h (get data ''skuDetail'')"
  shows "(buildOrderSummary h data \<noteq> None \<longleftrightarrow>
            convertible (get data ''buyerProvinceName'') \<and> convertible (get data ''buyerCityName'')
          \<and> convertible (get data ''exteriorColor'') \<and> convertible (get data ''interiorColor'')
          \<and> convertible (pick [get data ''retailPrice'', get data ''price''])
          \<and> convertible (pick [get sku ''configurationRetailPrice'',
                                 get (get sku ''materialConfig'') ''totalPrice'']))
       \<and> (\<forall>S. buildOrderSummary h data = Some S \<longrightarrow>
            (\<forall>v \<in> set (summaryFields S). v \<noteq> JNull \<and> v \<noteq> JUndefined)
          \<and> isString (requestTime S) \<and> isString (colorName S)
          \<and> isString (retailPrice S) \<and> isString (configurationRetailPrice S)
          \<and> (textual (get data ''orderNo'') \<and> textual (get data ''orderSn'')
               \<longrightarrow> isString (orderNo S))
          \<and> (textual (get data ''businessOrderNo'') \<and> textual (get data ''businessOrderSn'')
               \<longrightarrow> isString (businessOrderNo S))
          \<and> (textual (get data ''orderDate'') \<and> textual (get data ''orderTime'')
               \<longrightarrow> isString (orderDate S))
          \<and> (textual (get data ''payDate'') \<and> textual (get data ''payTime'')
               \<longrightarrow> isString (payDate S))
          \<and> (textual (get data ''buyerName'') \<and> textual (get data ''realName'')
               \<longrightarrow> isString (buyerName S))
          \<and> (textual (get data ''buyerTel'') \<and> textual (get data ''mobile'')
               \<longrightarrow> isString (buyerTel S))
          \<and> (textual (get data ''buyerIdNo'') \<and> textual (get data ''idNo'')
               \<longrightarrow> isString (buyerIdNo S))
          \<and> (textual (get data ''cityName'') \<longrightarrow> isString (cityName S))
          \<and> (textual (get data ''dealerFullName'') \<and> textual (get data ''dealerName'')
               \<and> textual (get data ''storeName'')
               \<longrightarrow> isString (dealerName S))
          \<and> (textual (get data ''vehicleModel'') \<and> textual (get data ''carSeriesName'')
               \<longrightarrow> isString (vehicleModel S))
          \<and> (textual (get data ''vehicleVersion'') \<and> textual (get data ''carTypeName'')
               \<longrightarrow> isString (vehicleVersion S))
          \<and> (textual (get data ''vehicleVin'') \<longrightarrow> isString (vehicleVin S))
          \<and> (textual (get sku ''configurationFullName'')
               \<and> textual (get (get sku ''materialConfig'') ''fullName'')
               \<longrightarrow> isString (configurationFullName S))
          \<and> (\<forall>n. get data ''orderNo'' = JNum n \<longrightarrow> orderNo S = JNum n))"
proof -
  have A: "buildOrderSummary h data \<noteq> None \<longleftrightarrow>
            convertible (get data ''buyerProvinceName'') \<and> convertible (get data ''buyerCityName'')
          \<and> convertible (get data ''exteriorColor'') \<and> convertible (get data ''interiorColor'')
          \<and> convertible (pick [get data ''retailPrice'', get data ''price''])
          \<and> convertible (pick [get sku ''configurationRetailPrice'',
                                 get (get sku ''materialConfig'') ''totalPrice''])"
    unfolding assms by (rule buildOrderSummary_returns)
  have B: "(\<forall>v \<in> set (summaryFields S). v \<noteq> JNull \<and> v \<noteq> JUndefined)
          \<and> isString (requestTime S) \<and> isString (colorName S)
          \<and> isString (retailPrice S) \<and> isString (configurationRetailPrice S)
          \<and> (textual (get data ''orderNo'') \<and> textual (get data ''orderSn'')
               \<longrightarrow> isString (orderNo S))
          \<and> (textual (get data ''businessOrderNo'') \<and> textual (get data ''businessOrderSn'')
               \<longrightarrow> isString (businessOrderNo S))
          \<and> (textual (get data ''orderDate'') \<and> textual (get data ''orderTime'')
               \<longrightarrow> isString (orderDate S))
          \<and> (textual (get data ''payDate'') \<and> textual (get data ''payTime'')
               \<longrightarrow> isString (payDate S))
          \<and> (textual (get data ''buyerName'') \<and> textual (get data ''realName'')
               \<longrightarrow> isString (buyerName S))
          \<and> (textual (get data ''buyerTel'') \<and> textual (get data ''mobile'')
               \<longrightarrow> isString (buyerTel S))
          \<and> (textual (get data ''buyerIdNo'') \<and> textual (get data ''idNo'')
               \<longrightarrow> isString (buyerIdNo S))
          \<and> (textual (get data ''cityName'') \<longrightarrow> isString (cityName S))
          \<and> (textual (get data ''dealerFullName'') \<and> textual (get data ''dealerName'')
               \<and> textual (get data ''storeName'')
               \<longrightarrow> isString (dealerName S))
          \<and> (textual (get data ''vehicleModel'') \<and> textual (get data ''carSeriesName'')
               \<longrightarrow> isString (vehicleModel S))
          \<and> (textual (get data ''vehicleVersion'') \<and> textual (get data ''carTypeName'')
               \<longrightarrow> isString (vehicleVersion S))
          \<and> (textual (get data ''vehicleVin'') \<longrightarrow> isString (vehicleVin S))
          \<and> (textual (get sku ''configurationFullName'')
               \<and> textual (get (get sku ''materialConfig'') ''fullName'')
               \<longrightarrow> isString (configurationFullName S))
          \<and> (\<forall>n. get data ''orderNo'' = JNum n \<longrightarrow> orderNo S = JNum n)"
    if ret: "buildOrderSummary h data = Some S" for S
  proof -
    from ret obtain city color price configPrice where
      color: "colorText data = Some color"
      and S: "S = \<lparr> requestTime = JStr (formatRequestTime h),
              orderNo = pick [get data ''orderNo'', get data ''orderSn''],
              businessOrderNo = pick [get data ''businessOrderNo'', get data ''businessOrderSn''],
              orderDate = pick [get data ''orderDate'', get data ''orderTime''],
              payDate = pick [get data ''payDate'', get data ''payTime''],
              buyerName = pick [get data ''buyerName'', get data ''realName''],
              buyerTel = pick [get data ''buyerTel'', get data ''mobile''],
              buyerIdNo = pick [get data ''buyerIdNo'', get data ''idNo''],
              cityName = pick [JStr city, get data ''cityName''],
              dealerName = pick [get data ''dealerFullName'', get data ''dealerName'',
                                 get data ''storeName''],
              vehicleModel = pick [get data ''vehicleModel'', get data ''carSeriesName''],
              vehicleVersion = pick [get data ''vehicleVersion'', get data ''carTypeName''],
              colorName = pick [JStr color, get data ''colorName''],
              retailPrice = JStr price,
              vehicleVin = nullish (get data ''vehicleVin'') (JStr (lit ''--'')),
              configurationFullName =
                pick [get sku ''configurationFullName'', get (get sku ''materialConfig'') ''fullName''],
              configurationRetailPrice = JStr configPrice \<rparr>"
      unfolding assms by (rule buildOrderSummary_Some)
    have cn: "color \<noteq> []" using color by (rule colorText_nonempty)
    have B1: "\<forall>v \<in> set (summaryFields S). v \<noteq> JNull \<and> v \<noteq> JUndefined"
      by (simp add: S summaryFields_def pick_defined nullish_defined del: pick.simps)
    have B2: "isString (requestTime S) \<and> isString (colorName S)
          \<and> isString (retailPrice S) \<and> isString (configurationRetailPrice S)"
      using cn by (simp add: S)
    have p2: "textual a \<and> textual b \<longrightarrow> isString (pick [a, b])" for a b
      using pick_textual [of "[a, b]"] by simp
    have p3: "textual a \<and> textual b \<and> textual c \<longrightarrow> isString (pick [a, b, c])" for a b c
      using pick_textual [of "[a, b, c]"] by simp
    have city: "textual (get data ''cityName'') \<longrightarrow> isString (cityName S)"
      using pick_textual [of "[JStr city, get data ''cityName'']"]
      by (simp add: S textual_def del: pick.simps)
    have vin: "textual (get data ''vehicleVin'') \<longrightarrow> isString (vehicleVin S)"
      by (simp add: S nullish_textual)
    have num: "\<forall>n. get data ''orderNo'' = JNum n \<longrightarrow> orderNo S = JNum n"
      by (simp add: S)
    show ?thesis
      using B1 B2 city vin num
      by (simp add: S p2 p3 del: pick.simps)
  qed
  show ?thesis
    using A B by blast
qed

text \<open>The record of the scenario of the specification holds a number under \<open>retailPrice\<close>
  and strings or nothing under every other key: its summary is returned and all its fields
  are strings.\<close>

theorem summary_fields_defined_witness:
  "map_option (\<lambda>S. list_all isString (summaryFields S))
     (buildOrderSummary (hostWith None 9) scenarioRecord) = Some True
   \<and> map_option orderNo (buildOrderSummary (hostWith None 9) scenarioRecord)
     = Some (JStr (lit ''O123''))
   \<and> map_option retailPrice (buildOrderSummary (hostWith None 9) scenarioRecord)
     = Some (JStr (yen # lit ''199,999.00''))"
proof -
  have sku: "JObj [] = sku_of (hostWith None 9) (get scenarioRecord ''skuDetail'')"
    by (simp add: sku_of_def orElse_def scenarioRecord_def lit_def)
  note T = summary_fields_defined [OF sku]
  have "buildOrderSummary (hostWith None 9) scenarioRecord \<noteq> None"
    unfolding T [THEN conjunct1]
    by (simp add: scenarioRecord_def lit_def convertible_primitive)
  then obtain S where S: "buildOrderSummary (hostWith None 9) scenarioRecord = Some S"
    by blast
  have a: "list_all isString (summaryFields S)"
    using T [THEN conjunct2, rule_format, OF S]
    by (simp add: summaryFields_def scenarioRecord_def lit_def textual_def)
  have b: "map_option orderNo (buildOrderSummary (hostWith None 9) scenarioRecord)
             = Some (JStr (lit ''O123''))"
    and c: "map_option retailPrice (buildOrderSummary (hostWith None 9) scenarioRecord)
             = Some (JStr (yen # lit ''199,999.00''))"
    by code_simp+
  show ?thesis
    using a b c by (simp add: S)
qed

text \<open>
  The claim as the specification words it makes every field a string and lets no record
  make the normalizer throw. An order number that is the number 123 stays the number 123,
  and an exterior colour that is the object \<open>{"toString": 1}\<close> makes the template literal
  throw.
\<close>

theorem summary_fields_defined_counterexample:
  "map_option orderNo
     (buildOrderSummary (hostWith None 9) (JObj [(lit ''orderNo'', JNum (Fin 123))]))
     = Some (JNum (Fin 123))
   \<and> \<not> isString (JNum (Fin 123))
   \<and> buildOrderSummary (hostWith None 9) (JObj [(lit ''exteriorColor'', unconvertible)]) = None"
  by code_simp

lemma sku_of_parsed:
  "JSON_parse h s = Some (JObj kvs) \<Longrightarrow> sku_of h (JStr s) = JObj kvs"
  "sku_of h (JObj kvs) = JObj kvs"
  "JSON_parse h s = None \<Longrightarrow> sku_of h (JStr s) = JObj []"
  by (simp_all add: sku_of_def orElse_def)

lemma buildOrderSummary_cong:
  assumes "\<forall>k. k \<noteq> ''skuDetail'' \<longrightarrow> get d1 k = get d2 k"
      and "sku_of h (get d1 ''skuDetail'') = sku_of h (get d2 ''skuDetail'')"
  shows "buildOrderSummary h d1 = buildOrderSummary h d2"
proof -
  have k: "get d1 k = get d2 k" if "k \<noteq> ''skuDetail''" for k
    using assms(1) that by blast
  show ?thesis
    unfolding buildOrderSummary_def cityText_def colorText_def Let_def assms(2)
    by (simp add: k del: pick.simps)
qed

text \<open>
  Claim C7. Take a record whose \<open>skuDetail\<close> is a string. When \<open>JSON.parse\<close> reads the string
  as an object and a second record carries that object itself, the summaries of the two
  records, where both are returned, have the same configuration name and the same
  configuration price; and when the two records agree on every other key, the normalizer
  does the same on both: it throws on neither or on both, and returns the same summary.
  When \<open>JSON.parse\<close> rejects the string, the normalizer does what it does for the empty
  object: the string gives it no reason to throw, and a summary it returns has the
  placeholder in both configuration fields.
\<close>

theorem sku_string_or_object:
  assumes "get d1 ''skuDetail'' = JStr s"
  shows "(\<forall>kvs S1 S2. JSON_parse h s = Some (JObj kvs) \<and> get d2 ''skuDetail'' = JObj kvs
            \<and> buildOrderSummary h d1 = Some S1 \<and> buildOrderSummary h d2 = Some S2 \<longrightarrow>
            configurationFullName S1 = configurationFullName S2
          \<and> configurationRetailPrice S1 = configurationRetailPrice S2)
       \<and> (\<forall>kvs. JSON_parse h s = Some (JObj kvs) \<and> get d2 ''skuDetail'' = JObj kvs
            \<and> (\<forall>k. k \<noteq> ''skuDetail'' \<longrightarrow> get d1 k = get d2 k) \<longrightarrow>
            buildOrderSummary h d1 = buildOrderSummary h d2)
       \<and> (JSON_parse h s = None \<and> get d2 ''skuDetail'' = JObj []
            \<and> (\<forall>k. k \<noteq> ''skuDetail'' \<longrightarrow> get d1 k = get d2 k) \<longrightarrow>
            buildOrderSummary h d1 = buildOrderSummary h d2)
       \<and> (JSON_parse h s = None \<longrightarrow>
            (buildOrderSummary h d1 \<noteq> None \<longleftrightarrow>
               convertible (get d1 ''buyerProvinceName'') \<and> convertible (get d1 ''buyerCityName'')
             \<and> convertible (get d1 ''exteriorColor'') \<and> convertible (get d1 ''interiorColor'')
             \<and> convertible (pick [get d1 ''retailPrice'', get d1 ''price'']))
          \<and> (\<forall>S. buildOrderSummary h d1 = Some S \<longrightarrow>
                configurationFullName S = JStr (lit ''--'')
              \<and> configurationRetailPrice S = JStr (lit ''--'')))"
proof -
  have A: "configurationFullName S1 = configurationFullName S2
          \<and> configurationRetailPrice S1 = configurationRetailPrice S2"
    if a: "JSON_parse h s = Some (JObj kvs) \<and> get d2 ''skuDetail'' = JObj kvs
           \<and> buildOrderSummary h d1 = Some S1 \<and> buildOrderSummary h d2 = Some S2"
    for kvs S1 S2
  proof -
    have s1: "sku_of h (get d1 ''skuDetail'') = JObj kvs"
      and s2: "sku_of h (get d2 ''skuDetail'') = JObj kvs"
      using a assms by (simp_all add: sku_of_parsed)
    from a have r1: "buildOrderSummary h d1 = Some S1" and r2: "buildOrderSummary h d2 = Some S2"
      by simp_all
    show ?thesis
      by (rule buildOrderSummary_Some [OF r1], rule buildOrderSummary_Some [OF r2])
         (simp add: s1 s2 del: pick.simps)
  qed
  have B: "buildOrderSummary h d1 = buildOrderSummary h d2"
    if a: "JSON_parse h s = Some (JObj kvs) \<and> get d2 ''skuDetail'' = JObj kvs
           \<and> (\<forall>k. k \<noteq> ''skuDetail'' \<longrightarrow> get d1 k = get d2 k)" for kvs
    using a assms by (intro buildOrderSummary_cong) (simp_all add: sku_of_parsed)
  have C: "buildOrderSummary h d1 = buildOrderSummary h d2"
    if a: "JSON_parse h s = None \<and> get d2 ''skuDetail'' = JObj []
           \<and> (\<forall>k. k \<noteq> ''skuDetail'' \<longrightarrow> get d1 k = get d2 k)"
    using a assms by (intro buildOrderSummary_cong) (simp_all add: sku_of_parsed)
  have D: "(buildOrderSummary h d1 \<noteq> None \<longleftrightarrow>
               convertible (get d1 ''buyerProvinceName'') \<and> convertible (get d1 ''buyerCityName'')
             \<and> convertible (get d1 ''exteriorColor'') \<and> convertible (get d1 ''interiorColor'')
             \<and> convertible (pick [get d1 ''retailPrice'', get d1 ''price'']))
          \<and> (\<forall>S. buildOrderSummary h d1 = Some S \<longrightarrow>
                configurationFullName S = JStr (lit ''--'')
              \<and> configurationRetailPrice S = JStr (lit ''--''))"
    if a: "JSON_parse h s = None"
  proof -
    have s1: "sku_of h (get d1 ''skuDetail'') = JObj []"
      using a assms by (simp add: sku_of_parsed)
    have D1: "buildOrderSummary h d1 \<noteq> None \<longleftrightarrow>
               convertible (get d1 ''buyerProvinceName'') \<and> convertible (get d1 ''buyerCityName'')
             \<and> convertible (get d1 ''exteriorColor'') \<and> convertible (get d1 ''interiorColor'')
             \<and> convertible (pick [get d1 ''retailPrice'', get d1 ''price''])"
      unfolding buildOrderSummary_returns s1
      by (simp add: convertible_primitive)
    have D2: "configurationFullName S = JStr (lit ''--'')
              \<and> configurationRetailPrice S = JStr (lit ''--'')"
      if r: "buildOrderSummary h d1 = Some S" for S
      by (rule buildOrderSummary_Some [OF r]) (simp add: s1 formatCurrency_dashes)
    show ?thesis using D1 D2 by blast
  qed
  show ?thesis
    using A B C D by blast
qed

text \<open>A record with the configuration as a JSON text and the same record with the
  configuration object give the same summary, with the name and the price of the
  configuration; a record that holds the object and nothing else gives the same price; a
  text that is no JSON gives the placeholders.\<close>

theorem sku_string_or_object_witness:
  "buildOrderSummary (hostParsing skuText skuObject)
     (JObj [(lit ''skuDetail'', JStr skuText), (lit ''orderNo'', JStr (lit ''O123''))])
     = buildOrderSummary (hostParsing skuText skuObject)
         (JObj [(lit ''skuDetail'', skuObject), (lit ''orderNo'', JStr (lit ''O123''))])
   \<and> map_option configurationFullName
       (buildOrderSummary (hostParsing skuText skuObject)
          (JObj [(lit ''skuDetail'', JStr skuText), (lit ''orderNo'', JStr (lit ''O123''))]))
     = Some (JStr (lit ''Luxury''))
   \<and> map_option configurationRetailPrice
       (buildOrderSummary (hostParsing skuText skuObject)
          (JObj [(lit ''skuDetail'', JStr skuText), (lit ''orderNo'', JStr (lit ''O123''))]))
     = Some (JStr (yen # lit ''12.50''))
   \<and> map_option configurationRetailPrice
       (buildOrderSummary (hostParsing skuText skuObject) (JObj [(lit ''skuDetail'', skuObject)]))
     = Some (JStr (yen # lit ''12.50''))
   \<and> map_option configurationFullName
       (buildOrderSummary (hostWith None 9) (JObj [(lit ''skuDetail'', JStr (lit ''{oops''))]))
     = Some (JStr (lit ''--''))
   \<and> map_option configurationRetailPrice
       (buildOrderSummary (hostWith None 9) (JObj [(lit ''skuDetail'', JStr (lit ''{oops''))]))
     = Some (JStr (lit ''--''))"
proof -
  let ?h = "hostParsing skuText skuObject"
  let ?d1 = "JObj [(lit ''skuDetail'', JStr skuText), (lit ''orderNo'', JStr (lit ''O123''))]"
  let ?d2 = "JObj [(lit ''skuDetail'', skuObject), (lit ''orderNo'', JStr (lit ''O123''))]"
  let ?d3 = "JObj [(lit ''skuDetail'', JStr (lit ''{oops''))]"
  have g1: "get ?d1 ''skuDetail'' = JStr skuText" and g3: "get ?d3 ''skuDetail'' = JStr (lit ''{oops'')"
    by simp_all
  have same: "\<forall>k. k \<noteq> ''skuDetail'' \<longrightarrow> get ?d1 k = get ?d2 k"
    by (simp add: lit_inject)
  have parse: "JSON_parse ?h skuText = Some skuObject"
    and fail: "JSON_parse (hostWith None 9) (lit ''{oops'') = None"
    by (simp_all add: hostParsing_def hostWith_def)
  have a: "buildOrderSummary ?h ?d1 = buildOrderSummary ?h ?d2"
    using sku_string_or_object [OF g1, where h = ?h and ?d2.0 = ?d2, THEN conjunct2,
            THEN conjunct1, rule_format,
            of "[(lit ''materialConfig'',
                  JObj [(lit ''fullName'', JStr (lit ''Luxury'')),
                        (lit ''totalPrice'', JNum (Fin (25 / 2)))])]"]
          parse same
    by (simp add: skuObject_def)
  have b: "map_option configurationFullName (buildOrderSummary ?h ?d2) = Some (JStr (lit ''Luxury''))"
    and c: "map_option configurationRetailPrice (buildOrderSummary ?h ?d2)
              = Some (JStr (yen # lit ''12.50''))"
    by code_simp+
  let ?d4 = "JObj [(lit ''skuDetail'', skuObject)]"
  have "buildOrderSummary ?h ?d1 \<noteq> None" and "buildOrderSummary ?h ?d4 \<noteq> None"
    by code_simp+
  then obtain S1 S4 where S1: "buildOrderSummary ?h ?d1 = Some S1"
    and S4: "buildOrderSummary ?h ?d4 = Some S4"
    by blast
  have "configurationRetailPrice S1 = configurationRetailPrice S4"
    using sku_string_or_object [OF g1, where h = ?h and ?d2.0 = ?d4, THEN conjunct1,
            rule_format,
            of "[(lit ''materialConfig'',
                  JObj [(lit ''fullName'', JStr (lit ''Luxury'')),
                        (lit ''totalPrice'', JNum (Fin (25 / 2)))])]" S1 S4]
          parse S1 S4
    by (simp add: skuObject_def)
  then have e: "map_option configurationRetailPrice (buildOrderSummary ?h ?d4)
                  = Some (JStr (yen # lit ''12.50''))"
    using a c by (auto simp: S1 S4)
  have "buildOrderSummary (hostWith None 9) ?d3 \<noteq> None"
    unfolding sku_string_or_object [OF g3, where h = "hostWith None 9", THEN conjunct2,
                THEN conjunct2, THEN conjunct2, THEN mp, OF fail, THEN conjunct1]
    by (simp add: lit_def convertible_primitive)
  then obtain S where S: "buildOrderSummary (hostWith None 9) ?d3 = Some S" by blast
  have d: "configurationFullName S = JStr (lit ''--'')
           \<and> configurationRetailPrice S = JStr (lit ''--'')"
    using sku_string_or_object [OF g3, where h = "hostWith None 9", THEN conjunct2,
            THEN conjunct2, THEN conjunct2, THEN mp, OF fail, THEN conjunct2, rule_format, OF S]
    by simp
  show ?thesis
    using a b c d e by (simp add: S)
qed

lemma parts_nth:
  assumes "parts h data = Some ps"
  shows "colorText data \<bind> (\<lambda>color. line label_color (pick [JStr color, get data ''colorName'']))
           = Some (ps ! 13)"
    and "cityText data \<bind> (\<lambda>city. line label_city (pick [JStr city, get data ''cityName'']))
           = Some (ps ! 9)"
proof -
  note n = those_Some_nth [OF assms [unfolded parts_def Let_def], THEN conjunct2, rule_format]
  show "colorText data \<bind> (\<lambda>color. line label_color (pick [JStr color, get data ''colorName'']))
          = Some (ps ! 13)"
    using n [of 13] by (simp del: pick.simps)
  show "cityText data \<bind> (\<lambda>city. line label_city (pick [JStr city, get data ''cityName'']))
          = Some (ps ! 9)"
    using n [of 9] by (simp del: pick.simps)
qed

lemma colorText_Some:
  assumes "colorText data = Some color"
  obtains e i where
    "ToString (orElse (get data ''exteriorColor'') (JStr (lit ''--''))) = Some e"
    and "ToString (orElse (get data ''interiorColor'') (JStr (lit ''--''))) = Some i"
    and "color = e @ lit '' / '' @ i"
  using assms by (auto simp: colorText_def bind_eq_Some_conv)

text \<open>
  Claim C8. The colour of the summary is \<open>pick\<close> of two candidates: first the exterior and
  the interior colour joined by \<open>" / "\<close>, each side replaced by \<open>"--"\<close> on its own when it is
  absent (or otherwise falsy); then the legacy field \<open>colorName\<close>. The first candidate is
  never empty, so it is the one returned. The mail text carries the same value in its
  colour line. The two colours are converted in a template literal: a colour that cannot
  be converted makes the normalizer and the mail text throw, and there is no summary.
\<close>

theorem color_candidates:
  "(colorText data \<noteq> None \<longleftrightarrow>
      convertible (get data ''exteriorColor'') \<and> convertible (get data ''interiorColor''))
   \<and> (colorText data = None \<longrightarrow> buildOrderSummary h data = None \<and> parts h data = None)
   \<and> (\<forall>S. buildOrderSummary h data = Some S \<longrightarrow>
        (\<exists>e i. ToString (orElse (get data ''exteriorColor'') (JStr (lit ''--''))) = Some e
              \<and> ToString (orElse (get data ''interiorColor'') (JStr (lit ''--''))) = Some i
              \<and> colorName S = pick [JStr (e @ lit '' / '' @ i), get data ''colorName'']
              \<and> colorName S = JStr (e @ lit '' / '' @ i)))
   \<and> (\<forall>ps. parts h data = Some ps \<longrightarrow>
        (\<exists>e i. ToString (orElse (get data ''exteriorColor'') (JStr (lit ''--''))) = Some e
              \<and> ToString (orElse (get data ''interiorColor'') (JStr (lit ''--''))) = Some i
              \<and> ps ! 13 = label_color @ lit '': '' @ e @ lit '' / '' @ i))
   \<and> (\<forall>v. v = JUndefined \<or> v = JNull \<or> v = JStr [] \<longrightarrow>
        ToString (orElse v (JStr (lit ''--''))) = Some (lit ''--''))
   \<and> (\<forall>s. s \<noteq> [] \<longrightarrow> ToString (orElse (JStr s) (JStr (lit ''--''))) = Some s)"
proof -
  have A: "colorText data \<noteq> None \<longleftrightarrow>
      convertible (get data ''exteriorColor'') \<and> convertible (get data ''interiorColor'')"
    by (simp add: colorText_eq_None del: not_None_eq)
  have B: "buildOrderSummary h data = None \<and> parts h data = None" if n: "colorText data = None"
  proof -
    have "buildOrderSummary h data = None"
      using n by (simp add: buildOrderSummary_def Let_def bind_eq_None_conv)
    moreover have "parts h data = None"
    proof (rule ccontr)
      assume "parts h data \<noteq> None"
      then obtain ps where "parts h data = Some ps" by blast
      from parts_nth(1) [OF this] n show False by simp
    qed
    ultimately show ?thesis by simp
  qed
  have C: "\<exists>e i. ToString (orElse (get data ''exteriorColor'') (JStr (lit ''--''))) = Some e
              \<and> ToString (orElse (get data ''interiorColor'') (JStr (lit ''--''))) = Some i
              \<and> colorName S = pick [JStr (e @ lit '' / '' @ i), get data ''colorName'']
              \<and> colorName S = JStr (e @ lit '' / '' @ i)"
    if r: "buildOrderSummary h data = Some S" for S
  proof -
    from r obtain color where c: "colorText data = Some color"
      and S: "colorName S = pick [JStr color, get data ''colorName'']"
      by (rule buildOrderSummary_Some) simp
    from c obtain e i where
      e: "ToString (orElse (get data ''exteriorColor'') (JStr (lit ''--''))) = Some e"
      and i: "ToString (orElse (get data ''interiorColor'') (JStr (lit ''--''))) = Some i"
      and ei: "color = e @ lit '' / '' @ i"
      by (rule colorText_Some)
    have "color \<noteq> []" using c by (rule colorText_nonempty)
    then have "colorName S = JStr color" by (simp add: S)
    with e i ei S show ?thesis by blast
  qed
  have D: "\<exists>e i. ToString (orElse (get data ''exteriorColor'') (JStr (lit ''--''))) = Some e
              \<and> ToString (orElse (get data ''interiorColor'') (JStr (lit ''--''))) = Some i
              \<and> ps ! 13 = label_color @ lit '': '' @ e @ lit '' / '' @ i"
    if p: "parts h data = Some ps" for ps
  proof -
    from parts_nth(1) [OF p] obtain color where c: "colorText data = Some color"
      and l: "line label_color (pick [JStr color, get data ''colorName'']) = Some (ps ! 13)"
      by (auto simp: bind_eq_Some_conv simp del: pick.simps)
    from c obtain e i where
      e: "ToString (orElse (get data ''exteriorColor'') (JStr (lit ''--''))) = Some e"
      and i: "ToString (orElse (get data ''interiorColor'') (JStr (lit ''--''))) = Some i"
      and ei: "color = e @ lit '' / '' @ i"
      by (rule colorText_Some)
    have "color \<noteq> []" using c by (rule colorText_nonempty)
    then have "ps ! 13 = label_color @ lit '': '' @ color"
      using l by (simp add: line_def nullish_def)
    with e i ei show ?thesis by auto
  qed
  have E: "ToString (orElse v (JStr (lit ''--''))) = Some (lit ''--'')"
    if "v = JUndefined \<or> v = JNull \<or> v = JStr []" for v
    using that by (auto simp: orElse_def)
  have F: "ToString (orElse (JStr s) (JStr (lit ''--''))) = Some s" if "s \<noteq> []" for s
    using that by (simp add: orElse_def)
  show ?thesis
    using A B C D E F by blast
qed

text \<open>A record with an exterior colour, no interior colour and a legacy colour: the
  summary shows the exterior colour and the placeholder, not the legacy colour.\<close>

theorem color_candidates_witness:
  "map_option colorName
     (buildOrderSummary (hostWith None 9)
        (JObj [(lit ''exteriorColor'', JStr (lit ''Black'')),
               (lit ''colorName'', JStr (lit ''Legacy''))]))
     = Some (JStr (lit ''Black / --''))
   \<and> map_option (\<lambda>ps. ps ! 13)
       (parts (hostWith None 9)
          (JObj [(lit ''exteriorColor'', JStr (lit ''Black'')),
                 (lit ''colorName'', JStr (lit ''Legacy''))]))
     = Some (label_color @ lit '': Black / --'')
   \<and> buildOrderSummary (hostWith None 9) (JObj [(lit ''interiorColor'', unconvertible)]) = None"
proof -
  let ?d = "JObj [(lit ''exteriorColor'', JStr (lit ''Black'')),
                  (lit ''colorName'', JStr (lit ''Legacy''))]"
  let ?h = "hostWith None 9"
  note T = color_candidates [where h = ?h and data = ?d]
  have "buildOrderSummary ?h ?d \<noteq> None" by code_simp
  then obtain S where S: "buildOrderSummary ?h ?d = Some S" by blast
  have "parts ?h ?d \<noteq> None" by code_simp
  then obtain ps where ps: "parts ?h ?d = Some ps" by blast
  have a: "colorName S = JStr (lit ''Black / --'')"
    using T [THEN conjunct2, THEN conjunct2, THEN conjunct1, rule_format, OF S]
    by (auto simp: orElse_def lit_def)
  have b: "ps ! 13 = label_color @ lit '': Black / --''"
    using T [THEN conjunct2, THEN conjunct2, THEN conjunct2, THEN conjunct1, rule_format, OF ps]
    by (auto simp: orElse_def lit_def)
  have "colorText (JObj [(lit ''interiorColor'', unconvertible)]) = None"
    by code_simp
  then have c: "buildOrderSummary ?h (JObj [(lit ''interiorColor'', unconvertible)]) = None"
    using color_candidates [where h = ?h and data = "JObj [(lit ''interiorColor'', unconvertible)]",
            THEN conjunct2, THEN conjunct1]
    by simp
  show ?thesis
    using a b c by (simp add: S ps)
qed

lemma GET_catch_typeError: "GET_catch typeError = Json500 (JStr message_TypeError)"
  by (simp add: GET_catch_def typeError_def orElse_def message_TypeError_def lit_def)

text \<open>
  Claim C9. For a record whose \<open>vehicleVin\<close> is the empty string, a summary that
  \<open>buildOrderSummary\<close> returns has the empty string as its VIN, not the placeholder, and the
  route answers with that summary and \<open>hasVin\<close> false; whereas an empty order number, read
  through \<open>pick\<close>, becomes the placeholder. The summary is returned unless one of the
  conversions of \<open>buildOrderSummary\<close> throws, and then the route answers 500 with the
  message of the \<open>TypeError\<close>.
\<close>

theorem empty_vin:
  assumes "data = nullish (get payload ''data'') payload"
      and "get data ''vehicleVin'' = JStr []"
      and "sku = sku_of h (get data ''skuDetail'')"
  shows "(\<forall>S. buildOrderSummary h data = Some S \<longrightarrow>
            vehicleVin S = JStr [] \<and> vehicleVin S \<noteq> JStr (lit ''--'')
          \<and> GET h (Returned payload) = Json200 False S)
       \<and> (\<forall>S. buildOrderSummary h data = Some S \<and> get data ''orderNo'' = JStr []
               \<and> get data ''orderSn'' = JUndefined \<longrightarrow>
            orderNo S = JStr (lit ''--''))
       \<and> (buildOrderSummary h data = None \<longrightarrow>
            GET h (Returned payload) = Json500 (JStr message_TypeError))
       \<and> (buildOrderSummary h data \<noteq> None \<longleftrightarrow>
            convertible (get data ''buyerProvinceName'') \<and> convertible (get data ''buyerCityName'')
          \<and> convertible (get data ''exteriorColor'') \<and> convertible (get data ''interiorColor'')
          \<and> convertible (pick [get data ''retailPrice'', get data ''price''])
          \<and> convertible (pick [get sku ''configurationRetailPrice'',
                                 get (get sku ''materialConfig'') ''totalPrice'']))"
proof -
  have A: "vehicleVin S = JStr [] \<and> vehicleVin S \<noteq> JStr (lit ''--'')
          \<and> GET h (Returned payload) = Json200 False S"
    if r: "buildOrderSummary h data = Some S" for S
  proof -
    have v: "vehicleVin S = JStr []"
      by (rule buildOrderSummary_Some [OF r]) (simp add: assms(2) nullish_def)
    have "GET h (Returned payload) = Json200 False S"
      using r assms(2) by (simp add: assms(1) [symmetric] Let_def)
    with v show ?thesis by (simp add: lit_def)
  qed
  have B: "orderNo S = JStr (lit ''--'')"
    if r: "buildOrderSummary h data = Some S \<and> get data ''orderNo'' = JStr []
           \<and> get data ''orderSn'' = JUndefined" for S
  proof -
    from r have r1: "buildOrderSummary h data = Some S" by simp
    show ?thesis
      by (rule buildOrderSummary_Some [OF r1]) (use r in simp)
  qed
  have C: "GET h (Returned payload) = Json500 (JStr message_TypeError)"
    if "buildOrderSummary h data = None"
    using that by (simp add: assms(1) [symmetric] Let_def GET_catch_typeError)
  have D: "buildOrderSummary h data \<noteq> None \<longleftrightarrow>
            convertible (get data ''buyerProvinceName'') \<and> convertible (get data ''buyerCityName'')
          \<and> convertible (get data ''exteriorColor'') \<and> convertible (get data ''interiorColor'')
          \<and> convertible (pick [get data ''retailPrice'', get data ''price''])
          \<and> convertible (pick [get sku ''configurationRetailPrice'',
                                 get (get sku ''materialConfig'') ''totalPrice''])"
    unfolding assms(3) by (rule buildOrderSummary_returns)
  show ?thesis
    using A B C D by blast
qed

text \<open>A record with an empty VIN and an empty order number, and the same record with an
  exterior colour that cannot be converted.\<close>

theorem empty_vin_witness:
  "GET (hostWith None 9)
     (Returned (JObj [(lit ''vehicleVin'', JStr []), (lit ''orderNo'', JStr [])]))
     = Json200 False
         \<lparr> requestTime = JStr (lit ''2025/1/1 09:00:00''),
           orderNo = JStr (lit ''--''), businessOrderNo = JStr (lit ''--''),
           orderDate = JStr (lit ''--''), payDate = JStr (lit ''--''),
           buyerName = JStr (lit ''--''), buyerTel = JStr (lit ''--''),
           buyerIdNo = JStr (lit ''--''), cityName = JStr (lit ''--''),
           dealerName = JStr (lit ''--''), vehicleModel = JStr (lit ''--''),
           vehicleVersion = JStr (lit ''--''), colorName = JStr (lit ''-- / --''),
           retailPrice = JStr (lit ''--''), vehicleVin = JStr [],
           configurationFullName = JStr (lit ''--''),
           configurationRetailPrice = JStr (lit ''--'') \<rparr>
   \<and> GET (hostWith None 9)
       (Returned (JObj [(lit ''vehicleVin'', JStr []), (lit ''exteriorColor'', unconvertible)]))
     = Json500 (JStr message_TypeError)"
proof -
  let ?h = "hostWith None 9"
  let ?p = "JObj [(lit ''vehicleVin'', JStr []), (lit ''orderNo'', JStr [])]"
  let ?q = "JObj [(lit ''vehicleVin'', JStr []), (lit ''exteriorColor'', unconvertible)]"
  let ?S = "\<lparr> requestTime = JStr (lit ''2025/1/1 09:00:00''),
           orderNo = JStr (lit ''--''), businessOrderNo = JStr (lit ''--''),
           orderDate = JStr (lit ''--''), payDate = JStr (lit ''--''),
           buyerName = JStr (lit ''--''), buyerTel = JStr (lit ''--''),
           buyerIdNo = JStr (lit ''--''), cityName = JStr (lit ''--''),
           dealerName = JStr (lit ''--''), vehicleModel = JStr (lit ''--''),
           vehicleVersion = JStr (lit ''--''), colorName = JStr (lit ''-- / --''),
           retailPrice = JStr (lit ''--''), vehicleVin = JStr [],
           configurationFullName = JStr (lit ''--''),
           configurationRetailPrice = JStr (lit ''--'') \<rparr>"
  have dp: "?p = nullish (get ?p ''data'') ?p" and dq: "?q = nullish (get ?q ''data'') ?q"
    by (simp_all add: nullish_def lit_def)
  have vp: "get ?p ''vehicleVin'' = JStr []" and vq: "get ?q ''vehicleVin'' = JStr []"
    by simp_all
  have S: "buildOrderSummary ?h ?p = Some ?S"
    by code_simp
  have N: "buildOrderSummary ?h ?q = None"
    by code_simp
  have a: "GET ?h (Returned ?p) = Json200 False ?S"
    using empty_vin [OF dp vp refl, THEN conjunct1, rule_format, OF S] by simp
  have b: "GET ?h (Returned ?q) = Json500 (JStr message_TypeError)"
    using empty_vin [OF dq vq refl, THEN conjunct2, THEN conjunct2, THEN conjunct1] N by simp
  show ?thesis
    using a b by simp
qed

lemma cityText_Some:
  assumes "cityText data = Some city"
  obtains p c where
    "ToString (orElse (get data ''buyerProvinceName'') (JStr [])) = Some p"
    and "ToString (orElse (get data ''buyerCityName'') (JStr [])) = Some c"
    and "city = trim (p @ lit '' '' @ c)"
  using assms by (auto simp: cityText_def bind_eq_Some_conv)

lemma pick_city:
  "pick [JStr city, legacy] = (if city \<noteq> [] then JStr city else pick [legacy])"
  by simp

lemma page_city:
  assumes "page_buildOrderSummary h data = Some L"
  obtains pc where
    "arrayJoin (lit '' '')
       (filter ToBoolean [get data ''buyerProvinceName'', get data ''buyerCityName'']) = Some pc"
    and "L ! 8 = (label_city, orElse (JStr pc) (JStr (lit ''--'')))"
  using assms
  unfolding page_buildOrderSummary_def Let_def
  by (auto simp: bind_eq_Some_conv split: if_splits)

lemma trim_blank: "trim (lit '' '') = []"
  by (simp add: trim_def lit_def isWhiteSpace_def)

text \<open>
  Claim C10, as the code has it. In the route and in the mail scripts, provided the
  province and the city convert to strings, the city of the summary is the province and
  the city joined by a blank and trimmed when that text is not empty, and otherwise the
  legacy field \<open>cityName\<close> read through \<open>pick\<close>. So with a province name that is a string
  and no city name it is the trimmed province name alone, whatever the legacy field holds,
  unless the province name is blank (empty or only white space); and with neither a
  province nor a city it is the legacy field, or the placeholder. The trimmed text is empty
  exactly when the province and the city hold nothing but white space. The page shows the
  province name as it is, untrimmed, and the placeholder when province and city are both
  missing: it reads no legacy field.
\<close>

theorem province_without_city:
  "(\<forall>S. buildOrderSummary h data = Some S \<longrightarrow>
      (\<exists>p c. ToString (orElse (get data ''buyerProvinceName'') (JStr [])) = Some p
            \<and> ToString (orElse (get data ''buyerCityName'') (JStr [])) = Some c
            \<and> cityName S = (if trim (p @ lit '' '' @ c) \<noteq> [] then JStr (trim (p @ lit '' '' @ c))
                            else pick [get data ''cityName''])))
   \<and> (\<forall>ps. parts h data = Some ps \<longrightarrow>
      (\<exists>p c. ToString (orElse (get data ''buyerProvinceName'') (JStr [])) = Some p
            \<and> ToString (orElse (get data ''buyerCityName'') (JStr [])) = Some c
            \<and> line label_city
                 (if trim (p @ lit '' '' @ c) \<noteq> [] then JStr (trim (p @ lit '' '' @ c))
                  else pick [get data ''cityName'']) = Some (ps ! 9)))
   \<and> (\<forall>S p. buildOrderSummary h data = Some S \<and> get data ''buyerProvinceName'' = JStr p
          \<and> (get data ''buyerCityName'' = JUndefined \<or> get data ''buyerCityName'' = JNull
             \<or> get data ''buyerCityName'' = JStr []) \<longrightarrow>
        cityName S = (if trim p \<noteq> [] then JStr (trim p) else pick [get data ''cityName'']))
   \<and> (\<forall>S. buildOrderSummary h data = Some S
          \<and> (get data ''buyerProvinceName'' = JUndefined \<or> get data ''buyerProvinceName'' = JNull
             \<or> get data ''buyerProvinceName'' = JStr [])
          \<and> (get data ''buyerCityName'' = JUndefined \<or> get data ''buyerCityName'' = JNull
             \<or> get data ''buyerCityName'' = JStr []) \<longrightarrow>
        cityName S = pick [get data ''cityName''])
   \<and> (\<forall>p c. trim (p @ lit '' '' @ c) = [] \<longleftrightarrow>
          (\<forall>x \<in> set p. isWhiteSpace x) \<and> (\<forall>x \<in> set c. isWhiteSpace x))
   \<and> (\<forall>L p. page_buildOrderSummary h data = Some L \<and> get data ''buyerProvinceName'' = JStr p
          \<and> p \<noteq> []
          \<and> (get data ''buyerCityName'' = JUndefined \<or> get data ''buyerCityName'' = JNull
             \<or> get data ''buyerCityName'' = JStr []) \<longrightarrow>
        L ! 8 = (label_city, JStr p))
   \<and> (\<forall>L. page_buildOrderSummary h data = Some L
          \<and> (get data ''buyerProvinceName'' = JUndefined \<or> get data ''buyerProvinceName'' = JNull
             \<or> get data ''buyerProvinceName'' = JStr [])
          \<and> (get data ''buyerCityName'' = JUndefined \<or> get data ''buyerCityName'' = JNull
             \<or> get data ''buyerCityName'' = JStr []) \<longrightarrow>
        L ! 8 = (label_city, JStr (lit ''--'')))"
proof -
  have A: "\<exists>p c. ToString (orElse (get data ''buyerProvinceName'') (JStr [])) = Some p
            \<and> ToString (orElse (get data ''buyerCityName'') (JStr [])) = Some c
            \<and> cityName S = (if trim (p @ lit '' '' @ c) \<noteq> [] then JStr (trim (p @ lit '' '' @ c))
                            else pick [get data ''cityName''])"
    if r: "buildOrderSummary h data = Some S" for S
  proof -
    from r obtain city where c: "cityText data = Some city"
      and S: "cityName S = pick [JStr city, get data ''cityName'']"
      by (rule buildOrderSummary_Some) simp
    from c obtain p c' where
      "ToString (orElse (get data ''buyerProvinceName'') (JStr [])) = Some p"
      and "ToString (orElse (get data ''buyerCityName'') (JStr [])) = Some c'"
      and "city = trim (p @ lit '' '' @ c')"
      by (rule cityText_Some)
    then show ?thesis unfolding S pick_city by blast
  qed
  have B: "\<exists>p c. ToString (orElse (get data ''buyerProvinceName'') (JStr [])) = Some p
            \<and> ToString (orElse (get data ''buyerCityName'') (JStr [])) = Some c
            \<and> line label_city
                 (if trim (p @ lit '' '' @ c) \<noteq> [] then JStr (trim (p @ lit '' '' @ c))
                  else pick [get data ''cityName'']) = Some (ps ! 9)"
    if r: "parts h data = Some ps" for ps
  proof -
    from parts_nth(2) [OF r] obtain city where c: "cityText data = Some city"
      and l: "line label_city (pick [JStr city, get data ''cityName'']) = Some (ps ! 9)"
      by (auto simp: bind_eq_Some_conv simp del: pick.simps)
    from c obtain p c' where
      "ToString (orElse (get data ''buyerProvinceName'') (JStr [])) = Some p"
      and "ToString (orElse (get data ''buyerCityName'') (JStr [])) = Some c'"
      and "city = trim (p @ lit '' '' @ c')"
      by (rule cityText_Some)
    then show ?thesis using l unfolding pick_city by blast
  qed
  have absent: "ToString (orElse v (JStr [])) = Some []"
    if "v = JUndefined \<or> v = JNull \<or> v = JStr []" for v
    using that by (auto simp: orElse_def)
  have C: "cityName S = (if trim p \<noteq> [] then JStr (trim p) else pick [get data ''cityName''])"
    if r: "buildOrderSummary h data = Some S \<and> get data ''buyerProvinceName'' = JStr p
          \<and> (get data ''buyerCityName'' = JUndefined \<or> get data ''buyerCityName'' = JNull
             \<or> get data ''buyerCityName'' = JStr [])" for S p
  proof -
    have "ToString (orElse (JStr p) (JStr [])) = Some p"
      by (cases "p = []") (simp_all add: orElse_def)
    moreover have "ToString (orElse (get data ''buyerCityName'') (JStr [])) = Some []"
      using r by (intro absent) simp
    ultimately show ?thesis
      using A [of S] r trim_snoc_space [of p] by auto
  qed
  have D: "cityName S = pick [get data ''cityName'']"
    if r: "buildOrderSummary h data = Some S
          \<and> (get data ''buyerProvinceName'' = JUndefined \<or> get data ''buyerProvinceName'' = JNull
             \<or> get data ''buyerProvinceName'' = JStr [])
          \<and> (get data ''buyerCityName'' = JUndefined \<or> get data ''buyerCityName'' = JNull
             \<or> get data ''buyerCityName'' = JStr [])" for S
  proof -
    have "ToString (orElse (get data ''buyerProvinceName'') (JStr [])) = Some []"
      using r by (intro absent) simp
    moreover have "ToString (orElse (get data ''buyerCityName'') (JStr [])) = Some []"
      using r by (intro absent) simp
    ultimately show ?thesis
      using A [of S] r trim_blank by auto
  qed
  have E: "trim (p @ lit '' '' @ c) = [] \<longleftrightarrow>
          (\<forall>x \<in> set p. isWhiteSpace x) \<and> (\<forall>x \<in> set c. isWhiteSpace x)" for p c
    using isWhiteSpace_space by (auto simp: trim_empty_iff lit_def)
  have F: "L ! 8 = (label_city, JStr p)"
    if r: "page_buildOrderSummary h data = Some L \<and> get data ''buyerProvinceName'' = JStr p
          \<and> p \<noteq> []
          \<and> (get data ''buyerCityName'' = JUndefined \<or> get data ''buyerCityName'' = JNull
             \<or> get data ''buyerCityName'' = JStr [])" for L p
  proof -
    from r have r1: "page_buildOrderSummary h data = Some L" by simp
    from r1 obtain pc where
      j: "arrayJoin (lit '' '')
            (filter ToBoolean [get data ''buyerProvinceName'', get data ''buyerCityName'']) = Some pc"
      and l: "L ! 8 = (label_city, orElse (JStr pc) (JStr (lit ''--'')))"
      by (rule page_city)
    have "pc = p" using j r by (auto simp: arrayJoin_def)
    then show ?thesis using l r by (simp add: orElse_def)
  qed
  have G: "L ! 8 = (label_city, JStr (lit ''--''))"
    if r: "page_buildOrderSummary h data = Some L
          \<and> (get data ''buyerProvinceName'' = JUndefined \<or> get data ''buyerProvinceName'' = JNull
             \<or> get data ''buyerProvinceName'' = JStr [])
          \<and> (get data ''buyerCityName'' = JUndefined \<or> get data ''buyerCityName'' = JNull
             \<or> get data ''buyerCityName'' = JStr [])" for L
  proof -
    from r have r1: "page_buildOrderSummary h data = Some L" by simp
    from r1 obtain pc where
      j: "arrayJoin (lit '' '')
            (filter ToBoolean [get data ''buyerProvinceName'', get data ''buyerCityName'']) = Some pc"
      and l: "L ! 8 = (label_city, orElse (JStr pc) (JStr (lit ''--'')))"
      by (rule page_city)
    have "pc = []" using j r by (auto simp: arrayJoin_def)
    then show ?thesis using l by (simp add: orElse_def)
  qed
  show ?thesis
    using A B C D E F G by blast
qed

text \<open>A record with the province \<open>" Hubei"\<close>, no city and a legacy city: the route and the
  mail text show the trimmed province and the page the province as it is. A record with
  the legacy city only: the route shows the legacy city and the page the placeholder.\<close>

theorem province_without_city_witness:
  "map_option cityName
     (buildOrderSummary (hostWith None 9)
        (JObj [(lit ''buyerProvinceName'', JStr (lit '' Hubei'')),
               (lit ''cityName'', JStr (lit ''Legacy''))]))
     = Some (JStr (lit ''Hubei''))
   \<and> map_option (\<lambda>ps. ps ! 9)
       (parts (hostWith None 9)
          (JObj [(lit ''buyerProvinceName'', JStr (lit '' Hubei'')),
                 (lit ''cityName'', JStr (lit ''Legacy''))]))
     = Some (label_city @ lit '': Hubei'')
   \<and> map_option (\<lambda>L. L ! 8)
       (page_buildOrderSummary (hostWith None 9)
          (JObj [(lit ''buyerProvinceName'', JStr (lit '' Hubei'')),
                 (lit ''cityName'', JStr (lit ''Legacy''))]))
     = Some (label_city, JStr (lit '' Hubei''))
   \<and> map_option cityName
       (buildOrderSummary (hostWith None 9) (JObj [(lit ''cityName'', JStr (lit ''Legacy''))]))
     = Some (JStr (lit ''Legacy''))
   \<and> map_option (\<lambda>L. L ! 8)
       (page_buildOrderSummary (hostWith None 9) (JObj [(lit ''cityName'', JStr (lit ''Legacy''))]))
     = Some (label_city, JStr (lit ''--''))"
proof -
  let ?h = "hostWith None 9"
  let ?a = "JObj [(lit ''buyerProvinceName'', JStr (lit '' Hubei'')),
                  (lit ''cityName'', JStr (lit ''Legacy''))]"
  let ?b = "JObj [(lit ''cityName'', JStr (lit ''Legacy''))]"
  note Ta = province_without_city [where h = ?h and data = ?a]
  note Tb = province_without_city [where h = ?h and data = ?b]
  have "buildOrderSummary ?h ?a \<noteq> None" and "parts ?h ?a \<noteq> None"
    and "page_buildOrderSummary ?h ?a \<noteq> None"
    and "buildOrderSummary ?h ?b \<noteq> None" and "page_buildOrderSummary ?h ?b \<noteq> None"
    by code_simp+
  then obtain Sa psa La Sb Lb where
    Sa: "buildOrderSummary ?h ?a = Some Sa" and psa: "parts ?h ?a = Some psa"
    and La: "page_buildOrderSummary ?h ?a = Some La"
    and Sb: "buildOrderSummary ?h ?b = Some Sb" and Lb: "page_buildOrderSummary ?h ?b = Some Lb"
    by blast
  have tr: "trim (lit '' Hubei'') = lit ''Hubei''"
    by code_simp
  have ne: "lit ''Hubei'' \<noteq> []" "lit '' Hubei'' \<noteq> []"
    by (simp_all add: lit_def)
  have ga: "get ?a ''buyerProvinceName'' = JStr (lit '' Hubei'')"
    "get ?a ''buyerCityName'' = JUndefined" "get ?a ''cityName'' = JStr (lit ''Legacy'')"
    by (simp_all add: lit_def)
  have gb: "get ?b ''buyerProvinceName'' = JUndefined" "get ?b ''buyerCityName'' = JUndefined"
    "get ?b ''cityName'' = JStr (lit ''Legacy'')"
    by (simp_all add: lit_def)
  have a: "cityName Sa = JStr (lit ''Hubei'')"
    using Ta [THEN conjunct2, THEN conjunct2, THEN conjunct1, rule_format,
              of Sa "lit '' Hubei''"] Sa ga ne
    by (simp add: tr)
  have b: "psa ! 9 = label_city @ lit '': Hubei''"
  proof -
    from Ta [THEN conjunct2, THEN conjunct1, rule_format, OF psa] obtain p c where
      P: "ToString (orElse (get ?a ''buyerProvinceName'') (JStr [])) = Some p"
      and C: "ToString (orElse (get ?a ''buyerCityName'') (JStr [])) = Some c"
      and l: "line label_city
                (if trim (p @ lit '' '' @ c) \<noteq> [] then JStr (trim (p @ lit '' '' @ c))
                 else pick [get ?a ''cityName'']) = Some (psa ! 9)"
      by blast
    have p: "p = lit '' Hubei''"
      using P ne unfolding ga by (simp add: orElse_def)
    have c: "c = []"
      using C unfolding ga by (simp add: orElse_def)
    have "trim (p @ lit '' '' @ c) = lit ''Hubei''"
      using trim_snoc_space [of "lit '' Hubei''"] by (simp add: tr p c)
    with l ne have "psa ! 9 = label_city @ lit '': '' @ lit ''Hubei''"
      by (simp add: line_def nullish_def)
    then show ?thesis by (simp add: lit_def)
  qed
  have c: "La ! 8 = (label_city, JStr (lit '' Hubei''))"
    using Ta [THEN conjunct2, THEN conjunct2, THEN conjunct2, THEN conjunct2, THEN conjunct2,
              THEN conjunct1, rule_format, of La "lit '' Hubei''"] La ga ne
    by simp
  have d: "cityName Sb = JStr (lit ''Legacy'')"
    using Tb [THEN conjunct2, THEN conjunct2, THEN conjunct2, THEN conjunct1, rule_format,
              of Sb] Sb gb
    by (simp add: lit_def)
  have e: "Lb ! 8 = (label_city, JStr (lit ''--''))"
    using Tb [THEN conjunct2, THEN conjunct2, THEN conjunct2, THEN conjunct2, THEN conjunct2,
              THEN conjunct2, rule_format, of Lb] Lb gb
    by simp
  show ?thesis
    using a b c d e by (simp add: Sa psa La Sb Lb)
qed

text \<open>
  The claim as the specification words it keeps the legacy field out whenever the province
  name is present and non-empty, and gives the trimmed province name in the page too. A
  province name of one blank is non-empty, yet the legacy field is returned; and the page
  shows the province \<open>" Hubei"\<close> with its blank.
\<close>

theorem province_without_city_counterexample:
  "map_option cityName
     (buildOrderSummary (hostWith None 9)
        (JObj [(lit ''buyerProvinceName'', JStr (lit '' '')),
               (lit ''cityName'', JStr (lit ''Shanghai''))]))
     = Some (JStr (lit ''Shanghai''))
   \<and> map_option (\<lambda>L. L ! 8)
       (page_buildOrderSummary (hostWith None 9)
          (JObj [(lit ''buyerProvinceName'', JStr (lit '' Hubei''))]))
     = Some (label_city, JStr (lit '' Hubei''))
   \<and> trim (lit '' Hubei'') = lit ''Hubei''
   \<and> lit '' Hubei'' \<noteq> lit ''Hubei''"
  by code_simp

end
